theory Spec2Isabelle
  imports Complex_Main
begin

section \<open>Numbers\<close>

text \<open>
  The services compute on JavaScript numbers. They are modelled as \<open>real\<close>: the
  properties below are about comparisons and case distinctions, not about rounding error.
  Where the source can divide by zero (which gives an infinity or NaN in JavaScript and
  \<open>0\<close> in HOL) the outcome of the source is written out in the definition, or the
  theorem excludes the input by a stated hypothesis.

  \<open>js_round\<close> is \<^verbatim>\<open>Math.round\<close> (ties go up) and \<open>toFixed n\<close> is
  \<^verbatim>\<open>x.toFixed(n)\<close> read back as a number (the larger neighbour on a tie).
\<close>

definition js_round :: "real \<Rightarrow> real" where
  "js_round x = real_of_int \<lfloor>x + 1 / 2\<rfloor>"

definition toFixed :: "nat \<Rightarrow> real \<Rightarrow> real" where
  "toFixed n x = real_of_int \<lfloor>x * 10 ^ n + 1 / 2\<rfloor> / 10 ^ n"

section \<open>Schema: the signals table and the signal history table\<close>

text \<open>
  \<open>signalType\<close> is a text column; the services only compare it with
  \<^verbatim>\<open>'BUY'\<close> and \<^verbatim>\<open>'SELL'\<close>, so every other value is \<open>HOLD\<close>.
  Decimal columns are strings parsed with \<^verbatim>\<open>parseFloat\<close> at every use; the
  model stores the parsed number. A nullable column is an \<open>option\<close>.
\<close>

datatype signalType = BUY | SELL | HOLD

datatype tradeResult = WIN | LOSS | REPLACED

datatype hitType = TP | SL

record Signal =
  signal_id :: nat
  symbol :: string
  signalType :: signalType
  entryPrice :: real
  exitPrice :: "real option"
  takeProfitPrice :: "real option"
  stopLossPrice :: "real option"
  confidence :: int
  isActive :: bool
  result :: "tradeResult option"
  pnl :: "real option"
  tradeType :: string
  timeframe :: string
  priority :: int

record SignalHistoryEntry =
  h_asset :: string
  h_signalType :: signalType
  h_entryPrice :: real
  h_exitPrice :: real
  h_takeProfitPrice :: "real option"
  h_stopLossPrice :: "real option"
  h_confidence :: int
  h_result :: tradeResult
  h_pnl :: real
  h_strategyType :: string
  h_closeReason :: string
  h_tradeOutcome :: string

text \<open>
  The repository (\<^verbatim>\<open>storage.ts\<close>) is a database; the model keeps the two tables
  as lists, newest row first, and the serial id counter. Database failures are not
  modelled.
\<close>

record Storage =
  signals :: "Signal list"
  signalHistory :: "SignalHistoryEntry list"
  nextId :: nat

definition getActiveSignals :: "Storage \<Rightarrow> Signal list" where
  "getActiveSignals db = filter isActive (signals db)"

definition getSignalById :: "Storage \<Rightarrow> nat \<Rightarrow> Signal option" where
  "getSignalById db i = find (\<lambda>s. signal_id s = i) (signals db)"

definition updateSignal :: "nat \<Rightarrow> (Signal \<Rightarrow> Signal) \<Rightarrow> Storage \<Rightarrow> Storage" where
  "updateSignal i updates db =
     db\<lparr>signals := map (\<lambda>s. if signal_id s = i then updates s else s) (signals db)\<rparr>"

definition createSignalHistory :: "SignalHistoryEntry \<Rightarrow> Storage \<Rightarrow> Storage" where
  "createSignalHistory e db = db\<lparr>signalHistory := e # signalHistory db\<rparr>"

section \<open>RiskManagementService (riskManagement.ts)\<close>

record RiskPercentPerConfidence =
  risk_90_100 :: real
  risk_80_89 :: real
  risk_75_79 :: real
  risk_70_74 :: real
  risk_60_69 :: real
  risk_below_60 :: real

record RiskManagementConfig =
  maxRiskPerTrade :: real
  cfg_riskRewardRatio :: real
  maxConsecutiveLosses :: nat
  dynamicPositionSizing :: bool
  trailStopLoss :: bool
  confidenceBasedSizing :: bool
  maxDrawdown :: real
  riskPercentPerConfidence :: RiskPercentPerConfidence

record EnhancedRiskParams =
  rp_entryPrice :: real
  rp_stopLossPrice :: real
  rp_takeProfitPrice :: real
  positionSize :: real
  riskAmount :: real
  rewardAmount :: real
  riskRewardRatio :: real
  maxLossPercentage :: real
  maxGainPercentage :: real
  trailingStopPrice :: "real option"
  confidenceAdjustment :: real

record RiskManagementService =
  config :: RiskManagementConfig
  consecutiveLosses :: nat
  totalTrades :: nat
  winningTrades :: nat
  totalPnL :: real
  currentDrawdown :: real
  maxDrawdownReached :: real

definition defaultConfig :: RiskManagementConfig where
  "defaultConfig =
     \<lparr>maxRiskPerTrade = 1.5, cfg_riskRewardRatio = 2.5, maxConsecutiveLosses = 3,
      dynamicPositionSizing = True, trailStopLoss = True, confidenceBasedSizing = True,
      maxDrawdown = 15,
      riskPercentPerConfidence =
        \<lparr>risk_90_100 = 1.5, risk_80_89 = 1.2, risk_75_79 = 1.0, risk_70_74 = 0.8,
         risk_60_69 = 0.5, risk_below_60 = 0.3\<rparr>\<rparr>"

definition riskManagement0 :: RiskManagementService where
  "riskManagement0 =
     \<lparr>config = defaultConfig, consecutiveLosses = 0, totalTrades = 0, winningTrades = 0,
      totalPnL = 0, currentDrawdown = 0, maxDrawdownReached = 0\<rparr>"

definition getConfidenceBasedRisk :: "RiskManagementService \<Rightarrow> real \<Rightarrow> real" where
  "getConfidenceBasedRisk svc c =
     (let t = riskPercentPerConfidence (config svc) in
      if c \<ge> 90 then risk_90_100 t
      else if c \<ge> 80 then risk_80_89 t
      else if c \<ge> 75 then risk_75_79 t
      else if c \<ge> 70 then risk_70_74 t
      else if c \<ge> 60 then risk_60_69 t
      else risk_below_60 t)"

definition calculateBaseStopLoss :: "string \<Rightarrow> real \<Rightarrow> real" where
  "calculateBaseStopLoss symb volatility =
     (let symbolBase =
        (if symb = ''R_10'' then 0.8
         else if symb = ''R_25'' then 1.0
         else if symb = ''R_75'' then 1.2
         else if symb = ''RDBULL'' then 1.5
         else if symb = ''RDBEAR'' then 1.5
         else 1.0)
      in symbolBase * volatility)"

definition getConsecutiveLossAdjustment :: "RiskManagementService \<Rightarrow> real" where
  "getConsecutiveLossAdjustment svc =
     (if consecutiveLosses svc = 0 then 1.0
      else if consecutiveLosses svc = 1 then 0.9
      else if consecutiveLosses svc = 2 then 0.8
      else if consecutiveLosses svc \<ge> 3 then 0.6
      else 1.0)"

definition calculateTrailingStop :: "real \<Rightarrow> signalType \<Rightarrow> real \<Rightarrow> real" where
  "calculateTrailingStop entry st trailPercent =
     (if st = BUY then entry * (1 - trailPercent / 100)
      else entry * (1 + trailPercent / 100))"

text \<open>
  \<^verbatim>\<open>calculateEnhancedRiskParams\<close>. The position size divides by the distance
  between entry and stop; no property below reads it.
\<close>

definition calculateEnhancedRiskParams ::
  "RiskManagementService \<Rightarrow> string \<Rightarrow> signalType \<Rightarrow> real \<Rightarrow> real \<Rightarrow> real \<Rightarrow> real
     \<Rightarrow> EnhancedRiskParams" where
  "calculateEnhancedRiskParams svc symb st entry conf volatility accountBalance =
     (let confidenceRisk = getConfidenceBasedRisk svc conf;
          consecutiveLossAdjustment = getConsecutiveLossAdjustment svc;
          finalRiskPercent = confidenceRisk * consecutiveLossAdjustment;
          riskAmt = (accountBalance * finalRiskPercent) / 100;
          rewardAmt = riskAmt * cfg_riskRewardRatio (config svc);
          baseStopLossPercent = calculateBaseStopLoss symb volatility;
          stopLossPercent = min baseStopLossPercent (finalRiskPercent * 0.8);
          takeProfitPercent = stopLossPercent * cfg_riskRewardRatio (config svc);
          slPrice = (if st = BUY then entry * (1 - stopLossPercent / 100)
                     else entry * (1 + stopLossPercent / 100));
          tpPrice = (if st = BUY then entry * (1 + takeProfitPercent / 100)
                     else entry * (1 - takeProfitPercent / 100))
      in \<lparr>rp_entryPrice = entry,
          rp_stopLossPrice = slPrice,
          rp_takeProfitPrice = tpPrice,
          positionSize = riskAmt / \<bar>entry - slPrice\<bar>,
          riskAmount = riskAmt,
          rewardAmount = rewardAmt,
          riskRewardRatio = cfg_riskRewardRatio (config svc),
          maxLossPercentage = stopLossPercent,
          maxGainPercentage = takeProfitPercent,
          trailingStopPrice =
            (if trailStopLoss (config svc)
             then Some (calculateTrailingStop entry st (stopLossPercent * 0.6)) else None),
          confidenceAdjustment = consecutiveLossAdjustment\<rparr>)"

definition updateTradeResult :: "real \<Rightarrow> bool \<Rightarrow> RiskManagementService \<Rightarrow> RiskManagementService" where
  "updateTradeResult p isWin svc =
     (let svc1 = svc\<lparr>totalTrades := totalTrades svc + 1, totalPnL := totalPnL svc + p\<rparr>;
          svc2 = (if isWin
                  then svc1\<lparr>winningTrades := winningTrades svc1 + 1, consecutiveLosses := 0\<rparr>
                  else svc1\<lparr>consecutiveLosses := consecutiveLosses svc1 + 1\<rparr>)
      in if p < 0
         then (let dd = currentDrawdown svc2 + \<bar>p\<bar>
               in svc2\<lparr>currentDrawdown := dd,
                       maxDrawdownReached := max (maxDrawdownReached svc2) dd\<rparr>)
         else svc2\<lparr>currentDrawdown := max 0 (currentDrawdown svc2 - p)\<rparr>)"

text \<open>
  \<^verbatim>\<open>shouldStopTrading\<close> divides by \<^verbatim>\<open>Math.abs(totalPnL)\<close>. With
  \<open>totalPnL = 0\<close> the quotient is \<open>+Infinity\<close> when a drawdown has been recorded (the
  comparison is then true) and NaN when none has (every comparison with NaN is false).
\<close>

definition shouldStopTrading :: "RiskManagementService \<Rightarrow> bool" where
  "shouldStopTrading svc =
     (if totalPnL svc = 0 then 0 < maxDrawdownReached svc
      else (maxDrawdownReached svc / \<bar>totalPnL svc\<bar>) * 100 > maxDrawdown (config svc))"

text \<open>
  The warnings are formatted strings in the source; the model keeps which warning it is
  and the number it prints.
\<close>

datatype riskWarning =
    RiskRewardBelowMinimum real
  | RiskPerTradeExceedsMaximum real
  | ConsecutiveLossesWarning nat
  | ConfidenceBelowRecommended int
  | MaximumDrawdownReached

datatype riskRecommendation = TakeABreak | WaitForHigherConfidence

record RiskValidation =
  isValid :: bool
  warnings :: "riskWarning list"
  recommendations :: "riskRecommendation list"

text \<open>
  \<^verbatim>\<open>validateSignalRisk(signal, riskParams)\<close> reads only the confidence of the
  signal. The five checks run in the source's order, each appending to the lists.
\<close>

definition validateSignalRisk ::
  "RiskManagementService \<Rightarrow> int \<Rightarrow> EnhancedRiskParams \<Rightarrow> RiskValidation" where
  "validateSignalRisk svc signalConfidence riskParams =
     (let v0 = \<lparr>isValid = True, warnings = [], recommendations = []\<rparr>;
          v1 = (if riskRewardRatio riskParams < 2.0
                then v0\<lparr>isValid := False,
                        warnings := warnings v0 @ [RiskRewardBelowMinimum (riskRewardRatio riskParams)]\<rparr>
                else v0);
          v2 = (if maxLossPercentage riskParams > 2.0
                then v1\<lparr>isValid := False,
                        warnings := warnings v1 @ [RiskPerTradeExceedsMaximum (maxLossPercentage riskParams)]\<rparr>
                else v1);
          v3 = (if consecutiveLosses svc \<ge> 3
                then v2\<lparr>warnings := warnings v2 @ [ConsecutiveLossesWarning (consecutiveLosses svc)],
                        recommendations := recommendations v2 @ [TakeABreak]\<rparr>
                else v2);
          v4 = (if signalConfidence < 75
                then v3\<lparr>warnings := warnings v3 @ [ConfidenceBelowRecommended signalConfidence],
                        recommendations := recommendations v3 @ [WaitForHigherConfidence]\<rparr>
                else v3)
      in if shouldStopTrading svc
         then v4\<lparr>isValid := False, warnings := warnings v4 @ [MaximumDrawdownReached]\<rparr>
         else v4)"

section \<open>SignalTracker (signalTracker.ts): tick-driven closure\<close>

text \<open>
  \<open>trackedSignals\<close> is a \<^verbatim>\<open>Map<number, Signal>\<close> whose key is always the id of
  the signal it holds (\<^verbatim>\<open>set(signal.id, signal)\<close>); the model keeps the values in
  insertion order. The state a tick can reach is the tracker's map, the repository, and
  the \<^verbatim>\<open>riskManagement\<close> singleton of the process. The Telegram notification
  sent at closure is an outbound message and is left out.
\<close>

record DerivTickData =
  tick_symbol :: string
  quote :: real

record TrackerState =
  trackedSignals :: "Signal list"
  storage :: Storage
  riskManagement :: RiskManagementService

definition mapDerivSymbolToDisplay :: "string \<Rightarrow> string" where
  "mapDerivSymbolToDisplay derivSymbol =
     (if derivSymbol = ''R_10'' then ''V10''
      else if derivSymbol = ''R_25'' then ''V25''
      else if derivSymbol = ''R_75'' then ''V75''
      else derivSymbol)"

text \<open>
  The guards \<^verbatim>\<open>takeProfitPrice && currentPrice >= takeProfitPrice\<close>: a level
  that is null, or parses to \<open>0\<close>, is falsy and never hit.
\<close>

definition reachedUp :: "real option \<Rightarrow> real \<Rightarrow> bool" where
  "reachedUp level currentPrice =
     (case level of None \<Rightarrow> False | Some l \<Rightarrow> l \<noteq> 0 \<and> currentPrice \<ge> l)"

definition reachedDown :: "real option \<Rightarrow> real \<Rightarrow> bool" where
  "reachedDown level currentPrice =
     (case level of None \<Rightarrow> False | Some l \<Rightarrow> l \<noteq> 0 \<and> currentPrice \<le> l)"

text \<open>The decision of \<^verbatim>\<open>checkSignalStatus\<close>: the locals \<open>result\<close> and \<open>hitType\<close>.\<close>

definition signalHit :: "Signal \<Rightarrow> real \<Rightarrow> (tradeResult \<times> hitType) option" where
  "signalHit signal currentPrice =
     (if signalType signal = BUY then
        (if reachedUp (takeProfitPrice signal) currentPrice then Some (WIN, TP)
         else if reachedDown (stopLossPrice signal) currentPrice then Some (LOSS, SL)
         else None)
      else if signalType signal = SELL then
        (if reachedDown (takeProfitPrice signal) currentPrice then Some (WIN, TP)
         else if reachedUp (stopLossPrice signal) currentPrice then Some (LOSS, SL)
         else None)
      else None)"

definition closePnl :: "Signal \<Rightarrow> real \<Rightarrow> real" where
  "closePnl signal exitP =
     (if signalType signal = BUY then ((exitP - entryPrice signal) / entryPrice signal) * 100
      else if signalType signal = SELL then ((entryPrice signal - exitP) / entryPrice signal) * 100
      else 0)"

definition createSignalHistoryEntry ::
  "Signal \<Rightarrow> real \<Rightarrow> tradeResult \<Rightarrow> real \<Rightarrow> hitType \<Rightarrow> SignalHistoryEntry" where
  "createSignalHistoryEntry signal exitP res p hit =
     \<lparr>h_asset = symbol signal,
      h_signalType = signalType signal,
      h_entryPrice = entryPrice signal,
      h_exitPrice = exitP,
      h_takeProfitPrice = takeProfitPrice signal,
      h_stopLossPrice = stopLossPrice signal,
      h_confidence = confidence signal,
      h_result = res,
      h_pnl = p,
      h_strategyType = ''MULTI_TIMEFRAME_ANALYSIS'',
      h_closeReason = (if hit = TP then ''TAKE_PROFIT_HIT'' else ''STOP_LOSS_HIT''),
      h_tradeOutcome = (if res = WIN then ''PROFIT'' else ''LOSS'')\<rparr>"

definition closeSignal ::
  "Signal \<Rightarrow> real \<Rightarrow> tradeResult \<Rightarrow> hitType \<Rightarrow> TrackerState \<Rightarrow> TrackerState" where
  "closeSignal signal exitP res hit st =
     (let p = closePnl signal exitP;
          db1 = updateSignal (signal_id signal)
                  (\<lambda>r. r\<lparr>isActive := False, result := Some res,
                          pnl := Some (toFixed 2 p), exitPrice := Some exitP\<rparr>)
                  (storage st);
          tracked = filter (\<lambda>s. signal_id s \<noteq> signal_id signal) (trackedSignals st);
          db2 = createSignalHistory (createSignalHistoryEntry signal exitP res p hit) db1
      in st\<lparr>trackedSignals := tracked, storage := db2\<rparr>)"

definition checkSignalStatus :: "Signal \<Rightarrow> real \<Rightarrow> TrackerState \<Rightarrow> TrackerState" where
  "checkSignalStatus signal currentPrice st =
     (case signalHit signal currentPrice of
        None \<Rightarrow> st
      | Some (res, hit) \<Rightarrow> closeSignal signal currentPrice res hit st)"

text \<open>
  \<^verbatim>\<open>processTickData\<close> visits the tracked signals in order. The only entry a visit
  deletes is the one being visited, so the loop runs over the entries present at the
  start. Ticks are handled one after the other.
\<close>

definition tickStep :: "string \<Rightarrow> real \<Rightarrow> Signal \<Rightarrow> TrackerState \<Rightarrow> TrackerState" where
  "tickStep symb currentPrice signal st =
     (if symbol signal = symb \<and> isActive signal
      then checkSignalStatus signal currentPrice st else st)"

definition processTickData :: "DerivTickData \<Rightarrow> TrackerState \<Rightarrow> TrackerState" where
  "processTickData tickData st =
     fold (tickStep (mapDerivSymbolToDisplay (tick_symbol tickData)) (quote tickData))
       (trackedSignals st) st"

fun processTicks :: "DerivTickData list \<Rightarrow> TrackerState \<Rightarrow> TrackerState" where
  "processTicks [] st = st"
| "processTicks (t # ts) st = processTicks ts (processTickData t st)"

subsection \<open>Auxiliary notions for the tracker properties\<close>

text \<open>
  \<open>closesOn symb p s\<close>: a tick for \<open>symb\<close> at price \<open>p\<close> passes the filter of
  \<^verbatim>\<open>processTickData\<close> for \<open>s\<close> and hits one of its levels. \<open>outcomeOf p s\<close>
  is the history row \<^verbatim>\<open>closeSignal\<close> then writes.
\<close>

definition closesOn :: "string \<Rightarrow> real \<Rightarrow> Signal \<Rightarrow> bool" where
  "closesOn symb currentPrice s = (symbol s = symb \<and> isActive s \<and> signalHit s currentPrice \<noteq> None)"


text \<open>Sample data: one tracked BUY signal on V75, and the same signal without levels.\<close>

definition exampleSignal :: Signal where
  "exampleSignal =
     \<lparr>signal_id = 1, symbol = ''V75'', signalType = BUY, entryPrice = 100,
      exitPrice = None, takeProfitPrice = Some 102.5, stopLossPrice = Some 99,
      confidence = 80, isActive = True, result = None, pnl = None,
      tradeType = ''DAY'', timeframe = ''M15'', priority = 2\<rparr>"

definition exampleTracker :: TrackerState where
  "exampleTracker =
     \<lparr>trackedSignals = [exampleSignal],
      storage = \<lparr>signals = [exampleSignal], signalHistory = [], nextId = 2\<rparr>,
      riskManagement = riskManagement0\<rparr>"

definition exampleTick :: DerivTickData where
  "exampleTick = \<lparr>tick_symbol = ''R_75'', quote = 103\<rparr>"

definition unleveledSignal :: Signal where
  "unleveledSignal = exampleSignal\<lparr>takeProfitPrice := None, stopLossPrice := None\<rparr>"

definition unleveledTracker :: TrackerState where
  "unleveledTracker =
     \<lparr>trackedSignals = [unleveledSignal],
      storage = \<lparr>signals = [unleveledSignal], signalHistory = [], nextId = 2\<rparr>,
      riskManagement = riskManagement0\<rparr>"

section \<open>SignalManager (signalManager.ts): conflict prevention\<close>

text \<open>
  \<open>InsertSignal\<close> is a row still to be inserted: columns with a default are optional.
  \<^verbatim>\<open>strategyType\<close> is a label that no decision reads; it is left out of both
  records.
\<close>

record InsertSignal =
  ins_symbol :: string
  ins_signalType :: signalType
  ins_entryPrice :: real
  ins_confidence :: int
  ins_takeProfitPrice :: "real option"
  ins_stopLossPrice :: "real option"
  ins_tradeType :: "string option"
  ins_timeframe :: "string option"
  ins_priority :: "int option"

text \<open>
  \<^verbatim>\<open>storage.createSignal\<close>: the row gets the next serial id and the column
  defaults (active, trade type DAY, timeframe M15, priority 3).
\<close>

definition createSignal :: "InsertSignal \<Rightarrow> Storage \<Rightarrow> Signal \<times> Storage" where
  "createSignal ins db =
     (let row = \<lparr>signal_id = nextId db,
                 symbol = ins_symbol ins,
                 signalType = ins_signalType ins,
                 entryPrice = ins_entryPrice ins,
                 exitPrice = None,
                 takeProfitPrice = ins_takeProfitPrice ins,
                 stopLossPrice = ins_stopLossPrice ins,
                 confidence = ins_confidence ins,
                 isActive = True,
                 result = None,
                 pnl = None,
                 tradeType = (case ins_tradeType ins of None \<Rightarrow> ''DAY'' | Some x \<Rightarrow> x),
                 timeframe = (case ins_timeframe ins of None \<Rightarrow> ''M15'' | Some x \<Rightarrow> x),
                 priority = (case ins_priority ins of None \<Rightarrow> 3 | Some x \<Rightarrow> x)\<rparr>
      in (row, db\<lparr>signals := row # signals db, nextId := Suc (nextId db)\<rparr>))"

text \<open>
  \<^verbatim>\<open>checkForConflicts\<close>. The relative distance divides by the existing entry
  price; for an existing entry of \<open>0\<close> the quotient is an infinity or NaN and the test
  \<^verbatim>\<open>priceDiff < 0.01\<close> is false.
\<close>

definition conflictsWith :: "InsertSignal \<Rightarrow> Signal \<Rightarrow> bool" where
  "conflictsWith signalData existing =
     (if symbol existing = ins_symbol signalData then
        (if signalType existing \<noteq> ins_signalType signalData then True
         else entryPrice existing \<noteq> 0 \<and>
              \<bar>entryPrice existing - ins_entryPrice signalData\<bar> / entryPrice existing < 0.01)
      else False)"

definition checkForConflicts :: "Storage \<Rightarrow> InsertSignal \<Rightarrow> Signal list" where
  "checkForConflicts db signalData = filter (conflictsWith signalData) (getActiveSignals db)"

text \<open>\<^verbatim>\<open>x || 3\<close> on a priority: a missing priority and priority \<open>0\<close> both read as 3.\<close>

definition newPriorityOf :: "InsertSignal \<Rightarrow> int" where
  "newPriorityOf signalData =
     (case ins_priority signalData of None \<Rightarrow> 3 | Some x \<Rightarrow> if x = 0 then 3 else x)"

definition conflictPriorityOf :: "Signal \<Rightarrow> int" where
  "conflictPriorityOf conflict = (if priority conflict = 0 then 3 else priority conflict)"

fun shouldCreateDespiteConflicts :: "InsertSignal \<Rightarrow> Signal list \<Rightarrow> bool" where
  "shouldCreateDespiteConflicts signalData [] = False"
| "shouldCreateDespiteConflicts signalData (conflict # rest) =
     (if ins_confidence signalData > confidence conflict then True
      else if ins_confidence signalData = confidence conflict
              \<and> newPriorityOf signalData < conflictPriorityOf conflict then True
      else shouldCreateDespiteConflicts signalData rest)"

fun deactivateConflictingSignals :: "Signal list \<Rightarrow> Storage \<Rightarrow> Storage" where
  "deactivateConflictingSignals [] db = db"
| "deactivateConflictingSignals (conflict # rest) db =
     deactivateConflictingSignals rest
       (updateSignal (signal_id conflict)
          (\<lambda>r. r\<lparr>isActive := False, result := Some REPLACED,
                  exitPrice := Some (entryPrice conflict)\<rparr>) db)"

definition categorizeSignal :: "InsertSignal \<Rightarrow> InsertSignal" where
  "categorizeSignal signalData =
     (if ins_confidence signalData \<ge> 85
      then signalData\<lparr>ins_tradeType := Some ''SCALP'', ins_timeframe := Some ''M5'',
                      ins_priority := Some 1\<rparr>
      else if ins_confidence signalData \<ge> 75
      then signalData\<lparr>ins_tradeType := Some ''DAY'', ins_timeframe := Some ''M15'',
                      ins_priority := Some 2\<rparr>
      else if ins_confidence signalData \<ge> 60
      then signalData\<lparr>ins_tradeType := Some ''SWING'', ins_timeframe := Some ''H1'',
                      ins_priority := Some 3\<rparr>
      else signalData\<lparr>ins_tradeType := Some ''DAY'', ins_timeframe := Some ''M15'',
                      ins_priority := Some 3\<rparr>)"

text \<open>
  \<^verbatim>\<open>createSignalWithConflictPrevention\<close>: risk parameters and validation first
  (default volatility 1.0 and balance 10000), then the conflict check, then the insert.
  The result is the created row, or \<open>None\<close> for the source's \<^verbatim>\<open>null\<close>,
  together with the repository afterwards.
\<close>

definition createSignalWithConflictPrevention ::
  "RiskManagementService \<Rightarrow> InsertSignal \<Rightarrow> Storage \<Rightarrow> Signal option \<times> Storage" where
  "createSignalWithConflictPrevention svc signalData db =
     (let riskParams = calculateEnhancedRiskParams svc (ins_symbol signalData)
                         (ins_signalType signalData) (ins_entryPrice signalData)
                         (real_of_int (ins_confidence signalData)) 1.0 10000;
          riskValidation = validateSignalRisk svc (ins_confidence signalData) riskParams
      in if \<not> isValid riskValidation then (None, db)
         else
           (let enhancedSignal =
                  signalData\<lparr>ins_stopLossPrice := Some (toFixed 4 (rp_stopLossPrice riskParams)),
                              ins_takeProfitPrice := Some (toFixed 4 (rp_takeProfitPrice riskParams))\<rparr>;
                conflicts = checkForConflicts db enhancedSignal
            in if conflicts \<noteq> [] \<and> \<not> shouldCreateDespiteConflicts enhancedSignal conflicts
               then (None, db)
               else
                 (let db1 = (if conflicts \<noteq> [] then deactivateConflictingSignals conflicts db
                             else db);
                      created = createSignal (categorizeSignal enhancedSignal) db1
                  in (Some (fst created), snd created))))"

text \<open>The risk parameters \<^verbatim>\<open>createSignalWithConflictPrevention\<close> computes for a candidate.\<close>

definition riskParamsFor :: "RiskManagementService \<Rightarrow> InsertSignal \<Rightarrow> EnhancedRiskParams" where
  "riskParamsFor svc signalData =
     calculateEnhancedRiskParams svc (ins_symbol signalData) (ins_signalType signalData)
       (ins_entryPrice signalData) (real_of_int (ins_confidence signalData)) 1.0 10000"

text \<open>
  Sample data: three BUY candidates on V75, submitted one after the other to an empty
  repository under the default risk configuration.
\<close>

definition emptyStorage :: Storage where
  "emptyStorage = \<lparr>signals = [], signalHistory = [], nextId = 1\<rparr>"

definition candidateA :: InsertSignal where
  "candidateA =
     \<lparr>ins_symbol = ''V75'', ins_signalType = BUY, ins_entryPrice = 100, ins_confidence = 90,
      ins_takeProfitPrice = None, ins_stopLossPrice = None, ins_tradeType = None,
      ins_timeframe = None, ins_priority = Some 1\<rparr>"

definition candidateB :: InsertSignal where
  "candidateB = candidateA\<lparr>ins_entryPrice := 101.5, ins_confidence := 60, ins_priority := Some 3\<rparr>"

definition candidateC :: InsertSignal where
  "candidateC = candidateA\<lparr>ins_entryPrice := 100.8, ins_confidence := 70, ins_priority := Some 3\<rparr>"

definition storageAB :: Storage where
  "storageAB =
     snd (createSignalWithConflictPrevention riskManagement0 candidateB
            (snd (createSignalWithConflictPrevention riskManagement0 candidateA emptyStorage)))"

text \<open>Risk parameters with a risk-reward ratio of 2.2 and of 1.8, otherwise unremarkable.\<close>

definition riskParams22 :: EnhancedRiskParams where
  "riskParams22 =
     \<lparr>rp_entryPrice = 100, rp_stopLossPrice = 99, rp_takeProfitPrice = 102.2,
      positionSize = 100, riskAmount = 100, rewardAmount = 220, riskRewardRatio = 2.2,
      maxLossPercentage = 1, maxGainPercentage = 2.2, trailingStopPrice = None,
      confidenceAdjustment = 1\<rparr>"

definition riskParams18 :: EnhancedRiskParams where
  "riskParams18 = riskParams22\<lparr>rp_takeProfitPrice := 101.8, rewardAmount := 180,
     riskRewardRatio := 1.8, maxGainPercentage := 1.8\<rparr>"

definition lowRatioService :: RiskManagementService where
  "lowRatioService = riskManagement0\<lparr>config := defaultConfig\<lparr>cfg_riskRewardRatio := 1.8\<rparr>\<rparr>"

text \<open>
  Risk parameters with a maximum loss of 2.5 percent, and the risk statistics after one
  losing trade of 5 percent, which breaches the drawdown gate.
\<close>

definition riskParamsWide :: EnhancedRiskParams where
  "riskParamsWide = riskParams22\<lparr>rp_stopLossPrice := 97.5, maxLossPercentage := 2.5\<rparr>"

definition drawdownService :: RiskManagementService where
  "drawdownService = updateTradeResult (- 5) False riskManagement0"

section \<open>TechnicalAnalysisService (technicalAnalysis.ts): signal generation\<close>

datatype trend = UPTREND | DOWNTREND | SIDEWAYS

datatype volatilityLevel = HIGH | MEDIUM | LOW

datatype regimeType = TRENDING | RANGING

datatype strategy = BREAKOUT | PULLBACK | REVERSAL | SCALP_STRATEGY

record MarketStructure =
  ms_trend :: trend
  support :: real
  resistance :: real
  keyLevels :: "real list"
  volatility :: volatilityLevel

record TradeLevels =
  entry :: real
  takeProfit :: real
  stopLoss :: real

text \<open>
  \<^verbatim>\<open>generateTradeLevels\<close> rounds each level to four decimals and throws for a
  direction that is neither BUY nor SELL (\<open>None\<close>).
\<close>

definition round4 :: "real \<Rightarrow> real" where
  "round4 x = js_round (x * 10000) / 10000"

definition generateTradeLevels :: "real \<Rightarrow> signalType \<Rightarrow> real \<Rightarrow> real \<Rightarrow> TradeLevels option" where
  "generateTradeLevels price direction tpPercent slPercent =
     (if direction = BUY then
        Some \<lparr>entry = round4 price,
              takeProfit = round4 (price * (1 + tpPercent / 100)),
              stopLoss = round4 (price * (1 - slPercent / 100))\<rparr>
      else if direction = SELL then
        Some \<lparr>entry = round4 price,
              takeProfit = round4 (price * (1 - tpPercent / 100)),
              stopLoss = round4 (price * (1 + slPercent / 100))\<rparr>
      else None)"

text \<open>
  \<^verbatim>\<open>calculateTakeProfitStopLoss\<close>: percentage bands by confidence and
  volatility, then the levels are pulled towards support and resistance. The result is
  the pair (take-profit, stop-loss).
\<close>

definition tpSlPercents :: "int \<Rightarrow> volatilityLevel \<Rightarrow> real \<times> real" where
  "tpSlPercents conf vol =
     (let base = (if conf \<ge> 85 then (2.5, 1.5)
                  else if conf \<ge> 80 then (2.0, 1.5)
                  else if conf \<ge> 75 then (1.8, 1.5)
                  else (1.5, 2.0))
      in if vol = HIGH then (fst base * 1.1, snd base * 1.1)
         else if vol = MEDIUM then (fst base * 1.0, snd base * 1.0)
         else base)"

definition calculateTakeProfitStopLoss ::
  "real \<Rightarrow> signalType \<Rightarrow> int \<Rightarrow> MarketStructure \<Rightarrow> (real \<times> real) option" where
  "calculateTakeProfitStopLoss entryP st conf ms =
     (let pc = tpSlPercents conf (volatility ms) in
      case generateTradeLevels entryP st (fst pc) (snd pc) of
        None \<Rightarrow> None
      | Some levels \<Rightarrow>
          (if st = BUY then
             (let sl = (if support ms > 0 \<and> support ms < entryP
                           \<and> support ms * 0.995 > stopLoss levels
                        then support ms * 0.995 else stopLoss levels);
                  tp = (if resistance ms > entryP \<and> resistance ms * 0.995 < takeProfit levels
                        then resistance ms * 0.995 else takeProfit levels)
              in Some (tp, sl))
           else
             (let sl = (if resistance ms > 0 \<and> resistance ms > entryP
                           \<and> resistance ms * 1.005 < stopLoss levels
                        then resistance ms * 1.005 else stopLoss levels);
                  tp = (if support ms < entryP \<and> support ms > 0
                           \<and> support ms * 1.005 > takeProfit levels
                        then support ms * 1.005 else takeProfit levels)
              in Some (tp, sl))))"

text \<open>
  \<^verbatim>\<open>generateSignal\<close> first computes indicator values from the price window with
  helper methods (RSI, MACD, moving averages, Bollinger bands, market structure, the two
  momentum percentages, and the four advanced analyses). Those values are the input
  \<open>SignalInputs\<close> of the model; what is modelled is everything the method does with them:
  scoring, the decision, the confidence and its adjustments, and the trade levels. The
  reasoning strings are left out.
\<close>

record SignalInputs =
  rsi :: real
  macd :: real
  macdSignal :: real
  sma20 :: real
  ema50 :: real
  bollingerUpper :: real
  bollingerLower :: real
  priceChange :: real
  trendDirection :: real
  marketStructure :: MarketStructure
  alignment :: bool
  regimeType :: regimeType
  regimeStrength :: real
  recommendedStrategy :: strategy
  volumeConfirmation :: bool
  trapDetected :: bool

record SignalResult =
  sr_signalType :: signalType
  sr_confidence :: int
  sr_takeProfitPrice :: "real option"
  sr_stopLossPrice :: "real option"

text \<open>Each scoring block adds to the bullish score (first) or the bearish score (second).\<close>

definition scoreRSI :: "SignalInputs \<Rightarrow> int \<times> int" where
  "scoreRSI inp =
     (if rsi inp < 30 then (25, 0)
      else if rsi inp < 40 then (15, 0)
      else if rsi inp > 70 then (0, 25)
      else if rsi inp > 60 then (0, 15)
      else (0, 0))"

definition scoreMACD :: "SignalInputs \<Rightarrow> int \<times> int" where
  "scoreMACD inp =
     (let macdHistogram = macd inp - macdSignal inp in
      if macd inp > macdSignal inp \<and> macdHistogram > 0 then (20, 0)
      else if macd inp < macdSignal inp \<and> macdHistogram < 0 then (0, 20)
      else (0, 0))"

definition scoreMA :: "real \<Rightarrow> SignalInputs \<Rightarrow> int \<times> int" where
  "scoreMA currentPrice inp =
     (if currentPrice > sma20 inp \<and> currentPrice > ema50 inp \<and> sma20 inp > ema50 inp then (15, 0)
      else if currentPrice < sma20 inp \<and> currentPrice < ema50 inp \<and> sma20 inp < ema50 inp
      then (0, 15)
      else (0, 0))"

text \<open>
  The Bollinger position divides by the band width. With a width of \<open>0\<close> the position is
  \<open>-Infinity\<close> below the band (bullish), \<open>+Infinity\<close> above it (bearish) and NaN on it
  (no score).
\<close>

definition scoreBollinger :: "real \<Rightarrow> SignalInputs \<Rightarrow> int \<times> int" where
  "scoreBollinger currentPrice inp =
     (if bollingerUpper inp - bollingerLower inp = 0 then
        (if currentPrice < bollingerLower inp then (20, 0)
         else if currentPrice > bollingerLower inp then (0, 20)
         else (0, 0))
      else
        (let bbPosition = (currentPrice - bollingerLower inp)
                            / (bollingerUpper inp - bollingerLower inp)
         in if bbPosition < 0.1 then (20, 0)
            else if bbPosition > 0.9 then (0, 20)
            else (0, 0)))"

definition scoreMomentum :: "SignalInputs \<Rightarrow> int \<times> int" where
  "scoreMomentum inp =
     (if trendDirection inp > 0.2 \<and> priceChange inp > 0.1 then (10, 0)
      else if trendDirection inp < - 0.2 \<and> priceChange inp < - 0.1 then (0, 10)
      else (0, 0))"

definition scoreStructure :: "real \<Rightarrow> SignalInputs \<Rightarrow> int \<times> int" where
  "scoreStructure currentPrice inp =
     (if ms_trend (marketStructure inp) = UPTREND \<and> currentPrice > support (marketStructure inp)
      then (10, 0)
      else if ms_trend (marketStructure inp) = DOWNTREND
              \<and> currentPrice < resistance (marketStructure inp)
      then (0, 10)
      else (0, 0))"

definition scores :: "real \<Rightarrow> SignalInputs \<Rightarrow> (int \<times> int) list" where
  "scores currentPrice inp =
     [scoreRSI inp, scoreMACD inp, scoreMA currentPrice inp, scoreBollinger currentPrice inp,
      scoreMomentum inp, scoreStructure currentPrice inp]"

definition bullishScore :: "real \<Rightarrow> SignalInputs \<Rightarrow> int" where
  "bullishScore currentPrice inp = sum_list (map fst (scores currentPrice inp))"

definition bearishScore :: "real \<Rightarrow> SignalInputs \<Rightarrow> int" where
  "bearishScore currentPrice inp = sum_list (map snd (scores currentPrice inp))"

text \<open>
  The decision on the score difference: the signal type and the confidence before any
  adjustment (capped at 85 for BUY and SELL).
\<close>

definition technicalDecision :: "int \<Rightarrow> int \<Rightarrow> signalType \<times> int" where
  "technicalDecision bullish bearish =
     (let scoreDifference = \<bar>bullish - bearish\<bar> in
      if bullish > bearish \<and> scoreDifference \<ge> 20 then (BUY, min (40 + scoreDifference) 85)
      else if bearish > bullish \<and> scoreDifference \<ge> 20 then (SELL, min (40 + scoreDifference) 85)
      else (HOLD, 30 + max bullish bearish))"

definition currentPriceOf :: "real list \<Rightarrow> real" where
  "currentPriceOf marketDataHistory = last (rev marketDataHistory)"

text \<open>High volatility lowers the confidence by 15, but not below 30.\<close>

definition reduceForVolatility :: "MarketStructure \<Rightarrow> int \<Rightarrow> int" where
  "reduceForVolatility ms conf = (if volatility ms = HIGH then max (conf - 15) 30 else conf)"

text \<open>The adjustments after the advanced analyses, in the source's order, then the cap at 95.\<close>

definition adjustConfidence :: "signalType \<Rightarrow> SignalInputs \<Rightarrow> int \<Rightarrow> int" where
  "adjustConfidence st inp conf =
     (let a1 = (if alignment inp then conf + 10 else conf);
          a2 = (if regimeType inp = TRENDING \<and> regimeStrength inp > 70 then a1 + 5 else a1);
          a3 = (if volumeConfirmation inp then a2 + 5 else a2);
          a4 = (if trapDetected inp then a3 - 15 else a3);
          a5 = (if recommendedStrategy inp = REVERSAL \<and> st \<noteq> HOLD
                   \<and> ((st = BUY \<and> rsi inp < 30) \<or> (st = SELL \<and> rsi inp > 70))
                then a4 + 5 else a4)
      in min a5 95)"

definition generateSignal :: "real list \<Rightarrow> SignalInputs \<Rightarrow> SignalResult option" where
  "generateSignal marketDataHistory inp =
     (if length marketDataHistory < 20 then None
      else
        (let currentPrice = currentPriceOf marketDataHistory;
             d = technicalDecision (bullishScore currentPrice inp) (bearishScore currentPrice inp);
             conf = reduceForVolatility (marketStructure inp) (snd d);
             st = (if conf < 70 then HOLD else fst d);
             tpSl = (if st \<noteq> HOLD
                     then calculateTakeProfitStopLoss currentPrice st conf (marketStructure inp)
                     else None)
         in Some \<lparr>sr_signalType = st,
                  sr_confidence = adjustConfidence st inp conf,
                  sr_takeProfitPrice = map_option fst tpSl,
                  sr_stopLossPrice = map_option snd tpSl\<rparr>))"

text \<open>The sum of the confirmation adjustments, as listed in the method.\<close>

definition confirmationAdjustment :: "signalType \<Rightarrow> SignalInputs \<Rightarrow> int" where
  "confirmationAdjustment st inp =
     (if alignment inp then 10 else 0)
     + (if regimeType inp = TRENDING \<and> regimeStrength inp > 70 then 5 else 0)
     + (if volumeConfirmation inp then 5 else 0)
     - (if trapDetected inp then 15 else 0)
     + (if recommendedStrategy inp = REVERSAL
           \<and> ((st = BUY \<and> rsi inp < 30) \<or> (st = SELL \<and> rsi inp > 70)) then 5 else 0)"

text \<open>Sample data: an oversold window with every bullish block firing.\<close>

definition bullishInputs :: SignalInputs where
  "bullishInputs =
     \<lparr>rsi = 28, macd = 1, macdSignal = 0.8, sma20 = 99, ema50 = 98,
      bollingerUpper = 110, bollingerLower = 99.5, priceChange = 0.5, trendDirection = 0.3,
      marketStructure = \<lparr>ms_trend = UPTREND, support = 95, resistance = 120, keyLevels = [],
                          volatility = LOW\<rparr>,
      alignment = True, regimeType = RANGING, regimeStrength = 40,
      recommendedStrategy = REVERSAL, volumeConfirmation = False, trapDetected = False\<rparr>"

text \<open>Sample data: a window on which only the weaker RSI block fires.\<close>

definition neutralInputs :: SignalInputs where
  "neutralInputs =
     bullishInputs\<lparr>rsi := 38, macd := 0.8, sma20 := 101, bollingerLower := 90,
       trendDirection := 0, priceChange := 0,
       marketStructure := \<lparr>ms_trend = SIDEWAYS, support = 95, resistance = 120, keyLevels = [],
                            volatility = LOW\<rparr>\<rparr>"

definition flatHistory :: "real list" where
  "flatHistory = replicate 20 100"

section \<open>ConsolidatedSignalGenerator (consolidatedSignalGenerator.ts)\<close>

datatype bollingerPosition = UPPER | MIDDLE | LOWER

datatype maTrend = BULLISH | BEARISH

datatype tradeTimeframe = SCALP | DAY | SWING

text \<open>
  The indicator object of \<^verbatim>\<open>calculateAllIndicators\<close>, with the fields the
  scoring reads. The values come from mock price histories in the source and are the
  input of the model.
\<close>

record Indicators =
  ind_rsi :: real
  macdHistogram :: real
  bollingerPos :: bollingerPosition
  smaTrend :: maTrend
  emaTrend :: maTrend
  momentum :: real
  ind_volatility :: real

record TechnicalSignal =
  ts_action :: signalType
  ts_confidence :: real
  ts_reasoning :: "string list"

text \<open>
  \<^verbatim>\<open>generateTechnicalSignal\<close>: five weighted blocks, each adding to the bullish
  (first) or bearish (second) total and giving one line of reasoning (the numbers
  printed in a line are left out of the text).
\<close>

definition techRSI :: "Indicators \<Rightarrow> (real \<times> real) \<times> string list" where
  "techRSI ind =
     (if ind_rsi ind < 30 then ((20, 0), [''RSI oversold - Strong buy signal''])
      else if ind_rsi ind > 70 then ((0, 20), [''RSI overbought - Strong sell signal''])
      else if ind_rsi ind < 40 then ((10, 0), [''RSI - Moderate buy signal''])
      else if ind_rsi ind > 60 then ((0, 10), [''RSI - Moderate sell signal''])
      else ((0, 0), []))"

definition techMACD :: "Indicators \<Rightarrow> (real \<times> real) \<times> string list" where
  "techMACD ind =
     (if macdHistogram ind > 0 then ((25, 0), [''MACD bullish crossover - Momentum building''])
      else ((0, 25), [''MACD bearish crossover - Momentum declining'']))"

definition techBollinger :: "Indicators \<Rightarrow> (real \<times> real) \<times> string list" where
  "techBollinger ind =
     (if bollingerPos ind = LOWER
      then ((15, 0), [''Price at lower Bollinger Band - Potential reversal''])
      else if bollingerPos ind = UPPER
      then ((0, 15), [''Price at upper Bollinger Band - Potential reversal''])
      else ((0, 0), []))"

definition techMA :: "Indicators \<Rightarrow> (real \<times> real) \<times> string list" where
  "techMA ind =
     (if smaTrend ind = BULLISH \<and> emaTrend ind = BULLISH
      then ((20, 0), [''Both SMA and EMA trending bullish - Strong trend confirmation''])
      else if smaTrend ind = BEARISH \<and> emaTrend ind = BEARISH
      then ((0, 20), [''Both SMA and EMA trending bearish - Strong trend confirmation''])
      else if smaTrend ind = BULLISH \<or> emaTrend ind = BULLISH
      then ((10, 0), [''Mixed MA signals - Moderate bullish bias''])
      else if smaTrend ind = BEARISH \<or> emaTrend ind = BEARISH
      then ((0, 10), [''Mixed MA signals - Moderate bearish bias''])
      else ((0, 0), []))"

definition techMomentum :: "Indicators \<Rightarrow> (real \<times> real) \<times> string list" where
  "techMomentum ind =
     (if momentum ind > 0.02 then ((20, 0), [''Strong positive momentum - Trend acceleration''])
      else if momentum ind < - 0.02
      then ((0, 20), [''Strong negative momentum - Trend acceleration''])
      else if momentum ind > 0 then ((10, 0), [''Positive momentum - Upward bias''])
      else ((0, 10), [''Negative momentum - Downward bias'']))"

definition generateTechnicalSignal :: "Indicators \<Rightarrow> TechnicalSignal" where
  "generateTechnicalSignal ind =
     (let blocks = [techRSI ind, techMACD ind, techBollinger ind, techMA ind, techMomentum ind];
          bullishSignals = sum_list (map (fst \<circ> fst) blocks);
          bearishSignals = sum_list (map (snd \<circ> fst) blocks);
          totalWeight = 20 + 25 + 15 + 20 + 20;
          netScore = bullishSignals - bearishSignals;
          conf = min 95 (\<bar>netScore\<bar> / totalWeight * 100)
      in \<lparr>ts_action = (if netScore > 30 then BUY else if netScore < - 30 then SELL else HOLD),
          ts_confidence = conf,
          ts_reasoning = concat (map snd blocks)\<rparr>)"

text \<open>
  \<^verbatim>\<open>combineAnalysis\<close>: the technical score is the technical confidence; the
  fundamental score is 50 for a synthetic index.
\<close>

definition combinedConfidence :: "TechnicalSignal \<Rightarrow> real \<Rightarrow> real" where
  "combinedConfidence technical fundamentalScore =
     js_round (ts_confidence technical * 0.7 + fundamentalScore * 0.3)"

definition determineTimeframe :: "Indicators \<Rightarrow> tradeTimeframe" where
  "determineTimeframe ind =
     (if ind_volatility ind > 0.015 \<and> \<bar>momentum ind\<bar> > 0.02 then SCALP
      else if ind_volatility ind > 0.008 \<or> \<bar>momentum ind\<bar> > 0.01 then DAY
      else SWING)"

record RiskLevels =
  rl_stopLossPrice :: real
  rl_takeProfitPrice :: real
  riskReward :: real

definition timeframeMultipliers :: "tradeTimeframe \<Rightarrow> real \<times> real" where
  "timeframeMultipliers tf = (case tf of SCALP \<Rightarrow> (0.8, 2.5) | DAY \<Rightarrow> (1.0, 3.0) | SWING \<Rightarrow> (1.2, 3.5))"

text \<open>\<^verbatim>\<open>calculateRiskLevels\<close> takes no direction: the levels are the same for BUY and SELL.\<close>

definition calculateRiskLevels :: "real \<Rightarrow> real \<Rightarrow> real \<Rightarrow> tradeTimeframe \<Rightarrow> RiskLevels" where
  "calculateRiskLevels entryP conf vol tf =
     (let baseStopLoss = max 0.015 (vol * 1.5);
          confidenceMultiplier = conf / 100;
          multipliers = timeframeMultipliers tf;
          stopLossPercent = baseStopLoss * fst multipliers;
          takeProfitPercent = stopLossPercent * snd multipliers * confidenceMultiplier
      in \<lparr>rl_stopLossPrice = entryP * (1 - stopLossPercent),
          rl_takeProfitPrice = entryP * (1 + takeProfitPercent),
          riskReward = js_round ((takeProfitPercent / stopLossPercent) * 100) / 100\<rparr>)"

record ConsolidatedSignal =
  cs_symbol :: string
  cs_action :: signalType
  cs_confidence :: real
  cs_entryPrice :: real
  cs_takeProfitPrice :: real
  cs_stopLossPrice :: real
  cs_timeframe :: tradeTimeframe
  cs_reasoning :: "string list"
  technicalScore :: real
  fundamentalScore :: real
  cs_riskReward :: real

text \<open>
  \<^verbatim>\<open>generateSignalForSymbol\<close>, from the market price, the indicators and the
  fundamental analysis on (reasoning of the fundamental analysis included); the expiry
  time is left out. \<open>None\<close> is the source's \<^verbatim>\<open>null\<close>.
\<close>

definition MIN_CONFIDENCE :: real where
  "MIN_CONFIDENCE = 75"

definition MIN_RISK_REWARD :: real where
  "MIN_RISK_REWARD = 2.5"

definition generateSignalForSymbol ::
  "string \<Rightarrow> real \<Rightarrow> Indicators \<Rightarrow> real \<Rightarrow> string list \<Rightarrow> ConsolidatedSignal option" where
  "generateSignalForSymbol symb price ind fundScore fundReasoning =
     (let technicalSignal = generateTechnicalSignal ind;
          conf = combinedConfidence technicalSignal fundScore;
          tf = determineTimeframe ind;
          riskLevels = calculateRiskLevels price conf (ind_volatility ind) tf
      in if conf < MIN_CONFIDENCE \<or> riskReward riskLevels < MIN_RISK_REWARD then None
         else Some \<lparr>cs_symbol = symb,
                    cs_action = ts_action technicalSignal,
                    cs_confidence = conf,
                    cs_entryPrice = price,
                    cs_takeProfitPrice = rl_takeProfitPrice riskLevels,
                    cs_stopLossPrice = rl_stopLossPrice riskLevels,
                    cs_timeframe = tf,
                    cs_reasoning = ts_reasoning technicalSignal @ fundReasoning,
                    technicalScore = ts_confidence technicalSignal,
                    fundamentalScore = fundScore,
                    cs_riskReward = riskReward riskLevels\<rparr>)"

definition validateSignalQuality :: "ConsolidatedSignal \<Rightarrow> bool" where
  "validateSignalQuality s =
     (if cs_confidence s < MIN_CONFIDENCE then False
      else if cs_riskReward s < MIN_RISK_REWARD then False
      else if technicalScore s < 70 then False
      else if length (cs_reasoning s) < 3 then False
      else True)"

text \<open>Sample data: indicators of a quiet, overbought market, every block bearish.\<close>

definition bearishIndicators :: Indicators where
  "bearishIndicators =
     \<lparr>ind_rsi = 75, macdHistogram = - 1, bollingerPos = UPPER, smaTrend = BEARISH,
      emaTrend = BEARISH, momentum = - 0.005, ind_volatility = 0.005\<rparr>"

section \<open>TacticalTradingAssistant (tacticalTradingAssistant.ts)\<close>

datatype healthStatus = STRONG | WEAKENING | CRITICAL | INVALIDATED

datatype alertType =
  INVALIDATED_ALERT | CRITICAL_ALERT | WARNING | BREAKEVEN_SUGGESTED | TRAILING_STOP
  | PROFIT_PROTECTION

datatype alertAction = MONITOR | ADJUST_SL | CLOSE_MANUAL | BREAKEVEN | TRAIL | PROTECT_PROFITS

datatype urgency = URGENCY_LOW | URGENCY_MEDIUM | URGENCY_HIGH

text \<open>
  The health status of a cycle, with the fields the alert logic reads.
  \<^verbatim>\<open>calculateSignalHealth\<close> scores mock price histories; its result is an input
  of the model. Times are milliseconds as integers.
\<close>

record SignalHealthStatus =
  hs_id :: nat
  hs_symbol :: string
  hs_signalType :: "signalType option"
  hs_status :: healthStatus
  healthScore :: real
  hs_currentPrice :: real
  hs_entryPrice :: real
  unrealizedPnL :: real

record LastAlertState =
  las_status :: healthStatus
  las_healthScore :: real
  las_unrealizedPnL :: real
  lastAlertTime :: "int option"
  lastTelegramAlert :: "int option"
  profitTier :: string
  peakProfit :: "real option"
  lastPrice :: "real option"
  lastProfitWarning :: "int option"

text \<open>
  The message of an alert is a formatted string; the model keeps which message it is and
  the values it prints (whether profits are to be locked, profit, stop level, protected
  share, peak).
\<close>

datatype alertMessage =
    InvalidatedMessage string bool real
  | WeakeningMessage string real real
  | ProfitDecliningMessage string real real real

record TacticalAlert =
  al_signalId :: nat
  alertType :: alertType
  message :: alertMessage
  al_action :: alertAction
  al_urgency :: urgency
  al_timestamp :: int

definition TELEGRAM_THROTTLE_INTERVAL :: int where
  "TELEGRAM_THROTTLE_INTERVAL = 5 * 60 * 1000"


definition getProfitTier :: "real \<Rightarrow> string" where
  "getProfitTier profitPercent =
     (if profitPercent > 5.0 then ''EXCELLENT''
      else if profitPercent > 2.0 then ''GOOD''
      else if profitPercent > 1.0 then ''BASIC''
      else if profitPercent > 0.3 then ''SMALL''
      else ''NONE'')"


text \<open>
  The profit percentage \<^verbatim>\<open>checkAndGenerateAlerts\<close> computes inline: no guard on
  the entry price, and every direction other than BUY is treated as SELL.
\<close>

definition cycleProfitPercent :: "Signal \<Rightarrow> real \<Rightarrow> real" where
  "cycleProfitPercent signal currentPrice =
     (if signalType signal = BUY
      then ((currentPrice - entryPrice signal) / entryPrice signal) * 100
      else ((entryPrice signal - currentPrice) / entryPrice signal) * 100)"

definition isSignalInvalidated :: "real \<Rightarrow> SignalHealthStatus \<Rightarrow> bool" where
  "isSignalInvalidated profitPercent health =
     (let majorLoss = profitPercent < - 2.5;
          healthCollapse = healthScore health < 20;
          statusInvalidated = (hs_status health = INVALIDATED)
      in majorLoss \<or> healthCollapse \<or> statusInvalidated)"

text \<open>
  \<^verbatim>\<open>isSignalWeakening\<close>. A state without a peak makes the drop NaN (no significant
  drop). \<^verbatim>\<open>lastPrice || currentPrice\<close> falls back to the current price for a
  missing or zero last price. The state has no \<^verbatim>\<open>signal\<close> field, so the direction
  is the one of the health status.
\<close>

definition isSignalWeakening ::
  "real \<Rightarrow> real \<Rightarrow> SignalHealthStatus \<Rightarrow> LastAlertState option \<Rightarrow> bool" where
  "isSignalWeakening currentPrice profitPercent health lastState =
     (case lastState of
        None \<Rightarrow> False
      | Some ls \<Rightarrow>
          (let significantDrop =
                 (case peakProfit ls of
                    None \<Rightarrow> False
                  | Some pk \<Rightarrow> pk - profitPercent > 1.5 \<and> pk > 1.0);
               healthDeterioration = las_healthScore ls - healthScore health > 20;
               statusDowngrade = (las_status ls = STRONG \<and> hs_status health = WEAKENING);
               base = (case lastPrice ls of
                         None \<Rightarrow> currentPrice
                       | Some lp \<Rightarrow> if lp = 0 then currentPrice else lp);
               priceDirection = currentPrice - base;
               againstSignal = ((hs_signalType health = Some BUY \<and> priceDirection < 0)
                                \<or> (hs_signalType health = Some SELL \<and> priceDirection > 0));
               meaningfulMove = \<bar>priceDirection / base\<bar> > 0.002
           in significantDrop \<or> healthDeterioration \<or> statusDowngrade
              \<or> (againstSignal \<and> meaningfulMove)))"

definition isProfitDeteriorating :: "real \<Rightarrow> real \<Rightarrow> bool" where
  "isProfitDeteriorating profitPercent pk =
     (if pk < 2.0 then False
      else (let profitDrop = pk - profitPercent in profitDrop > 2.5 \<and> profitPercent > 0.5))"

definition calculateDynamicRetestStopLoss :: "Signal \<Rightarrow> real \<Rightarrow> real \<Rightarrow> real \<Rightarrow> real" where
  "calculateDynamicRetestStopLoss signal currentPrice profitPercent pk =
     (if pk > 5.0 then
        (let protectedProfit = pk * 0.75 in
         if signalType signal = BUY then entryPrice signal * (1 + protectedProfit / 100)
         else entryPrice signal * (1 - protectedProfit / 100))
      else if pk > 3.0 then
        (let protectedProfit = pk * 0.6 in
         if signalType signal = BUY then entryPrice signal * (1 + protectedProfit / 100)
         else entryPrice signal * (1 - protectedProfit / 100))
      else if pk > 1.5 then
        (if signalType signal = BUY then entryPrice signal * (1 + 0.2 / 100)
         else entryPrice signal * (1 - 0.2 / 100))
      else if profitPercent > 0.5 then
        (if signalType signal = BUY then entryPrice signal * (1 + 0.1 / 100)
         else entryPrice signal * (1 - 0.1 / 100))
      else
        (if signalType signal = BUY then currentPrice * (1 - 1.5 / 100)
         else currentPrice * (1 + 1.5 / 100)))"

definition getProtectedProfitPercent :: "real \<Rightarrow> real" where
  "getProtectedProfitPercent pk =
     (if pk > 5.0 then 75 else if pk > 3.0 then 60 else if pk > 1.5 then 0 else 0)"

text \<open>
  \<open>lastAlertStates\<close> is a \<^verbatim>\<open>Map<number, LastAlertState>\<close>.
  \<^verbatim>\<open>updateSignalStateOnly\<close> keeps both alert times of the previous state.
\<close>

type_synonym alertStates = "nat \<rightharpoonup> LastAlertState"

definition updateSignalStateOnly ::
  "nat \<Rightarrow> SignalHealthStatus \<Rightarrow> real \<Rightarrow> real \<Rightarrow> real \<Rightarrow> int option \<Rightarrow> alertStates \<Rightarrow> alertStates" where
  "updateSignalStateOnly signalId health profitPercent pk currentPrice lastAlert states =
     (let lastState = states signalId in
      states(signalId \<mapsto>
        \<lparr>las_status = hs_status health,
         las_healthScore = healthScore health,
         las_unrealizedPnL = unrealizedPnL health,
         lastAlertTime = (case lastAlert of
                            Some t \<Rightarrow> Some t
                          | None \<Rightarrow> (case lastState of None \<Rightarrow> None | Some ls \<Rightarrow> lastAlertTime ls)),
         lastTelegramAlert = (case lastState of None \<Rightarrow> None | Some ls \<Rightarrow> lastTelegramAlert ls),
         profitTier = getProfitTier (unrealizedPnL health),
         peakProfit = Some pk,
         lastPrice = Some currentPrice,
         lastProfitWarning = (case lastState of None \<Rightarrow> None | Some ls \<Rightarrow> lastProfitWarning ls)\<rparr>))"

text \<open>The three alert conditions, in the source's order: the alert of a cycle, if any.\<close>

definition cycleAlert ::
  "int \<Rightarrow> Signal \<Rightarrow> nat \<Rightarrow> string \<Rightarrow> SignalHealthStatus \<Rightarrow> LastAlertState option \<Rightarrow> real \<Rightarrow> real
     \<Rightarrow> TacticalAlert option" where
  "cycleAlert now signal signalId symb health lastState profitPercent pk =
     (let currentPrice = hs_currentPrice health in
      if isSignalInvalidated profitPercent health then
        Some \<lparr>al_signalId = signalId, alertType = INVALIDATED_ALERT,
              message = InvalidatedMessage symb (profitPercent > 0) profitPercent,
              al_action = CLOSE_MANUAL, al_urgency = URGENCY_HIGH, al_timestamp = now\<rparr>
      else if isSignalWeakening currentPrice profitPercent health lastState then
        Some \<lparr>al_signalId = signalId, alertType = WARNING,
              message = WeakeningMessage symb
                          (calculateDynamicRetestStopLoss signal currentPrice profitPercent pk)
                          (getProtectedProfitPercent pk),
              al_action = ADJUST_SL, al_urgency = URGENCY_MEDIUM, al_timestamp = now\<rparr>
      else if isProfitDeteriorating profitPercent pk
              \<and> (case lastState of None \<Rightarrow> True | Some ls \<Rightarrow> lastProfitWarning ls = None) then
        Some \<lparr>al_signalId = signalId, alertType = PROFIT_PROTECTION,
              message = ProfitDecliningMessage symb pk profitPercent
                          (calculateDynamicRetestStopLoss signal currentPrice profitPercent pk),
              al_action = PROTECT_PROFITS, al_urgency = URGENCY_MEDIUM, al_timestamp = now\<rparr>
      else None)"

text \<open>
  \<^verbatim>\<open>checkAndGenerateAlerts\<close>. \<open>signal\<close> is the result of
  \<^verbatim>\<open>storage.getSignalById\<close>; a missing signal returns at once. The result is the
  alert state afterwards and the alert handed to \<^verbatim>\<open>generateAlert\<close>, if any.
\<close>

definition throttled :: "int \<Rightarrow> LastAlertState option \<Rightarrow> bool" where
  "throttled now lastState =
     (case lastState of
        None \<Rightarrow> False
      | Some ls \<Rightarrow> (case lastTelegramAlert ls of
                     None \<Rightarrow> False
                   | Some t \<Rightarrow> now - t < TELEGRAM_THROTTLE_INTERVAL))"

definition previousPeak :: "LastAlertState option \<Rightarrow> real" where
  "previousPeak lastState =
     (case lastState of
        None \<Rightarrow> 0
      | Some ls \<Rightarrow> (case peakProfit ls of None \<Rightarrow> 0 | Some p \<Rightarrow> p))"

definition checkAndGenerateAlerts ::
  "int \<Rightarrow> Signal option \<Rightarrow> nat \<Rightarrow> string \<Rightarrow> SignalHealthStatus \<Rightarrow> alertStates
     \<Rightarrow> alertStates \<times> TacticalAlert option" where
  "checkAndGenerateAlerts now signalOpt signalId symb health states =
     (case signalOpt of
        None \<Rightarrow> (states, None)
      | Some signal \<Rightarrow>
          (let lastState = states signalId;
               currentPrice = hs_currentPrice health;
               profitPercent = cycleProfitPercent signal currentPrice;
               pk = max (previousPeak lastState) profitPercent;
               lastAlert = (case lastState of None \<Rightarrow> None | Some ls \<Rightarrow> lastAlertTime ls)
           in if hs_status health \<noteq> INVALIDATED \<and> throttled now lastState then
                (updateSignalStateOnly signalId health profitPercent pk currentPrice lastAlert states,
                 None)
              else
                (case cycleAlert now signal signalId symb health lastState profitPercent pk of
                   Some alert \<Rightarrow>
                     (states(signalId \<mapsto>
                        \<lparr>las_status = hs_status health,
                         las_healthScore = healthScore health,
                         las_unrealizedPnL = unrealizedPnL health,
                         lastAlertTime = Some now,
                         lastTelegramAlert = Some now,
                         profitTier = getProfitTier (unrealizedPnL health),
                         peakProfit = Some pk,
                         lastPrice = Some currentPrice,
                         lastProfitWarning =
                           (if alertType alert = PROFIT_PROTECTION then Some now
                            else (case lastState of
                                    None \<Rightarrow> None
                                  | Some ls \<Rightarrow> lastProfitWarning ls))\<rparr>),
                      Some alert)
                 | None \<Rightarrow>
                     (updateSignalStateOnly signalId health profitPercent pk currentPrice
                        lastAlert states,
                      None))))"

text \<open>
  A health-check cycle calls \<^verbatim>\<open>checkAndGenerateAlerts\<close> once per monitored signal.
  \<open>runChecks\<close> runs a sequence of such calls and collects the alerts in the order they are
  emitted.
\<close>

record AlertCheck =
  ac_now :: int
  ac_signal :: "Signal option"
  ac_signalId :: nat
  ac_symbol :: string
  ac_health :: SignalHealthStatus

definition runCheck :: "AlertCheck \<Rightarrow> alertStates \<Rightarrow> alertStates \<times> TacticalAlert option" where
  "runCheck c states =
     checkAndGenerateAlerts (ac_now c) (ac_signal c) (ac_signalId c) (ac_symbol c) (ac_health c) states"

fun runChecks :: "AlertCheck list \<Rightarrow> alertStates \<Rightarrow> alertStates \<times> TacticalAlert list" where
  "runChecks [] states = (states, [])"
| "runChecks (c # cs) states =
     (let r = runCheck c states;
          rest = runChecks cs (fst r)
      in (fst rest, (case snd r of None \<Rightarrow> [] | Some a \<Rightarrow> [a]) @ snd rest))"

subsection \<open>Profit protection\<close>








subsection \<open>Auxiliary notions for the alert properties\<close>

text \<open>
  \<open>lastTelegramOf\<close> reads the time of the last alert of a signal. \<open>spaced a b\<close>: if the
  later alert \<open>b\<close> is for the same signal as \<open>a\<close> and is not an invalidation, it comes at
  least the throttle interval after \<open>a\<close>. \<open>peakOf\<close> reads the tracked peak.
\<close>

definition lastTelegramOf :: "alertStates \<Rightarrow> nat \<Rightarrow> int option" where
  "lastTelegramOf states signalId =
     (case states signalId of None \<Rightarrow> None | Some ls \<Rightarrow> lastTelegramAlert ls)"

definition spaced :: "TacticalAlert \<Rightarrow> TacticalAlert \<Rightarrow> bool" where
  "spaced a b =
     (al_signalId a = al_signalId b \<and> alertType b \<noteq> INVALIDATED_ALERT
        \<longrightarrow> al_timestamp b - al_timestamp a \<ge> TELEGRAM_THROTTLE_INTERVAL)"

definition peakOf :: "alertStates \<Rightarrow> nat \<Rightarrow> real option" where
  "peakOf states signalId =
     (case states signalId of None \<Rightarrow> None | Some ls \<Rightarrow> peakProfit ls)"

text \<open>
  Sample data: a BUY signal on V75 entered at 100, checked five times. The profit is 6
  percent at the first check and 4 percent at the second; the third comes a minute after
  the second; at the fourth the health status is INVALIDATED; the fifth comes more than
  five minutes after the fourth.
\<close>

definition monitoredSignal :: Signal where
  "monitoredSignal =
     \<lparr>signal_id = 7, symbol = ''V75'', signalType = BUY, entryPrice = 100,
      exitPrice = None, takeProfitPrice = Some 110, stopLossPrice = Some 98,
      confidence = 80, isActive = True, result = None, pnl = None,
      tradeType = ''DAY'', timeframe = ''M15'', priority = 2\<rparr>"

definition healthAt :: "real \<Rightarrow> healthStatus \<Rightarrow> real \<Rightarrow> SignalHealthStatus" where
  "healthAt price status score =
     \<lparr>hs_id = 7, hs_symbol = ''V75'', hs_signalType = None, hs_status = status,
      healthScore = score, hs_currentPrice = price, hs_entryPrice = 100,
      unrealizedPnL = price - 100\<rparr>"

definition checkAt :: "int \<Rightarrow> real \<Rightarrow> healthStatus \<Rightarrow> real \<Rightarrow> AlertCheck" where
  "checkAt now price status score =
     \<lparr>ac_now = now, ac_signal = Some monitoredSignal, ac_signalId = 7, ac_symbol = ''V75'',
      ac_health = healthAt price status score\<rparr>"

definition sampleChecks :: "AlertCheck list" where
  "sampleChecks =
     [checkAt 0 106 STRONG 80,
      checkAt 60000 104 STRONG 80,
      checkAt 120000 103 STRONG 80,
      checkAt 180000 103 INVALIDATED 10,
      checkAt 500000 101 STRONG 80]"



definition peakStates :: alertStates where
  "peakStates = fst (runChecks [checkAt 0 106 STRONG 80] Map.empty)"

definition retraceChecks :: "AlertCheck list" where
  "retraceChecks = [checkAt 60000 104 STRONG 80, checkAt 120000 104 STRONG 80]"

text \<open>The alert state after the first two sample checks: a warning was sent at 60000.\<close>

definition warnedStates :: alertStates where
  "warnedStates = fst (runChecks [checkAt 0 106 STRONG 80, checkAt 60000 104 STRONG 80] Map.empty)"

section \<open>Properties of the tick-driven tracker\<close>

lemma tickStep_not_closing: "\<not> closesOn symb p s \<Longrightarrow> tickStep symb p s st = st"
  by (auto simp: tickStep_def closesOn_def checkSignalStatus_def split: option.splits)

lemma tickStep_closing_tracked:
  "closesOn symb p s \<Longrightarrow>
     trackedSignals (tickStep symb p s st) = filter (\<lambda>x. signal_id x \<noteq> signal_id s) (trackedSignals st)"
  by (auto simp: tickStep_def closesOn_def checkSignalStatus_def closeSignal_def Let_def
        split: option.splits)


lemma fold_tickStep_tracked:
  "trackedSignals (fold (tickStep symb p) L st) =
     filter (\<lambda>x. signal_id x \<notin> signal_id ` {s \<in> set L. closesOn symb p s}) (trackedSignals st)"
proof (induction L arbitrary: st)
  case Nil
  then show ?case by simp
next
  case (Cons a L)
  show ?case
  proof (cases "closesOn symb p a")
    case True
    have eq: "{s \<in> set (a # L). closesOn symb p s} = insert a {s \<in> set L. closesOn symb p s}"
      using True by auto
    show ?thesis
      by (simp only: fold_simps Cons.IH tickStep_closing_tracked[OF True] eq filter_filter image_insert)
         (auto intro: filter_cong)
  next
    case False
    have eq: "{s \<in> set (a # L). closesOn symb p s} = {s \<in> set L. closesOn symb p s}"
      using False by auto
    show ?thesis
      by (simp only: fold_simps Cons.IH tickStep_not_closing[OF False] eq)
  qed
qed





text \<open>No tick changes the risk statistics: closing a signal never touches them.\<close>

lemma tickStep_keeps_risk: "riskManagement (tickStep symb p s st) = riskManagement st"
  by (simp add: tickStep_def checkSignalStatus_def closeSignal_def Let_def split: option.splits)

lemma processTickData_keeps_risk: "riskManagement (processTickData t st) = riskManagement st"
proof -
  have "riskManagement (fold (tickStep symb p) L st) = riskManagement st" for symb p L
    by (induction L arbitrary: st) (simp_all add: tickStep_keeps_risk)
  then show ?thesis by (simp add: processTickData_def)
qed

text \<open>
  Claim C3. A tick at or beyond take-profit closes a tracked BUY signal as a WIN, removes
  it from the tracked set, marks the row closed and appends one history row; the claim
  also asks that the closure reports to \<^verbatim>\<open>riskManagement.updateTradeResult\<close>.
  \<^verbatim>\<open>SignalTracker.closeSignal\<close> never does: at the sample tick the risk
  statistics are those of the start, with no trade counted, while the call the claim
  names would have counted one.
\<close>

theorem tracker_closure_leaves_risk_profile:
  "trackedSignals (processTickData exampleTick exampleTracker) = []
   \<and> map result (signals (storage (processTickData exampleTick exampleTracker))) = [Some WIN]
   \<and> map h_result (signalHistory (storage (processTickData exampleTick exampleTracker))) = [WIN]
   \<and> map h_pnl (signalHistory (storage (processTickData exampleTick exampleTracker))) = [3]
   \<and> riskManagement (processTickData exampleTick exampleTracker) = riskManagement0
   \<and> totalTrades (riskManagement (processTickData exampleTick exampleTracker)) = 0
   \<and> totalTrades (updateTradeResult 3 True riskManagement0) = 1"
  by (simp add: processTickData_def tickStep_def checkSignalStatus_def closeSignal_def
        exampleTick_def exampleTracker_def exampleSignal_def mapDerivSymbolToDisplay_def
        signalHit_def reachedUp_def reachedDown_def closePnl_def createSignalHistoryEntry_def
        createSignalHistory_def updateSignal_def updateTradeResult_def riskManagement0_def Let_def)




lemma find_map_other:
  "(\<And>r. signal_id (f r) = signal_id r) \<Longrightarrow> j \<noteq> i \<Longrightarrow>
     find (\<lambda>x. signal_id x = i) (map (\<lambda>r. if signal_id r = j then f r else r) rows)
       = find (\<lambda>x. signal_id x = i) rows"
  by (induction rows) auto

lemma tickStep_storage_other:
  assumes "closesOn symb p s \<longrightarrow> signal_id s \<noteq> i"
  shows "getSignalById (storage (tickStep symb p s st)) i = getSignalById (storage st) i"
proof (cases "closesOn symb p s")
  case False
  then show ?thesis by (simp add: tickStep_not_closing)
next
  case True
  with assms have ne: "signal_id s \<noteq> i" by simp
  from True obtain res hit where hit: "signalHit s p = Some (res, hit)"
    by (auto simp: closesOn_def)
  from True have "tickStep symb p s st = closeSignal s p res hit st"
    by (simp add: tickStep_def closesOn_def checkSignalStatus_def hit)
  then show ?thesis
    using ne by (simp add: closeSignal_def Let_def getSignalById_def updateSignal_def
        createSignalHistory_def find_map_other)
qed

lemma fold_tickStep_storage_other:
  "\<forall>x \<in> set L. closesOn symb p x \<longrightarrow> signal_id x \<noteq> i \<Longrightarrow>
     getSignalById (storage (fold (tickStep symb p) L st)) i = getSignalById (storage st) i"
  by (induction L arbitrary: st) (simp_all add: tickStep_storage_other)

lemma no_levels_no_hit:
  "takeProfitPrice s = None \<Longrightarrow> stopLossPrice s = None \<Longrightarrow> signalHit s p = None"
  by (simp add: signalHit_def reachedUp_def reachedDown_def)

lemma processTickData_keeps_unleveled:
  assumes "takeProfitPrice s = None" "stopLossPrice s = None"
    and "s \<in> set (trackedSignals st)" "distinct (map signal_id (trackedSignals st))"
  shows "s \<in> set (trackedSignals (processTickData t st))
    \<and> distinct (map signal_id (trackedSignals (processTickData t st)))
    \<and> getSignalById (storage (processTickData t st)) (signal_id s) = getSignalById (storage st) (signal_id s)"
proof -
  let ?sy = "mapDerivSymbolToDisplay (tick_symbol t)"
  have nc: "\<not> closesOn ?sy (quote t) s"
    using assms(1,2) by (simp add: closesOn_def no_levels_no_hit)
  have inj: "inj_on signal_id (set (trackedSignals st))"
    using assms(4) by (simp add: distinct_map)
  have other: "\<forall>x \<in> set (trackedSignals st). closesOn ?sy (quote t) x \<longrightarrow> signal_id x \<noteq> signal_id s"
  proof (intro ballI impI notI)
    fix x assume "x \<in> set (trackedSignals st)" "closesOn ?sy (quote t) x" "signal_id x = signal_id s"
    then have "x = s" using inj assms(3) by (auto dest: inj_onD)
    then show False using nc \<open>closesOn ?sy (quote t) x\<close> by simp
  qed
  have 1: "s \<in> set (trackedSignals (processTickData t st))"
    using assms(3) other by (auto simp: processTickData_def fold_tickStep_tracked)
  have 2: "distinct (map signal_id (trackedSignals (processTickData t st)))"
    using assms(4) by (simp add: processTickData_def fold_tickStep_tracked distinct_map_filter)
  have 3: "getSignalById (storage (processTickData t st)) (signal_id s) = getSignalById (storage st) (signal_id s)"
    unfolding processTickData_def by (rule fold_tickStep_storage_other[OF other])
  show ?thesis using 1 2 3 by simp
qed

text \<open>
  Claim C10. A tracked signal without a take-profit level never registers a WIN, one
  without a stop-loss level never registers a LOSS, and one with neither level is never
  closed by tick processing: after any sequence of ticks it is still tracked and its row
  in the signals table is unchanged (the ids of the tracked signals being distinct, as
  the keys of the map are).
\<close>

theorem null_levels_never_close:
  "(takeProfitPrice s = None \<longrightarrow> (\<forall>p h. signalHit s p \<noteq> Some (WIN, h)))
   \<and> (stopLossPrice s = None \<longrightarrow> (\<forall>p h. signalHit s p \<noteq> Some (LOSS, h)))
   \<and> (takeProfitPrice s = None \<and> stopLossPrice s = None \<and> s \<in> set (trackedSignals st)
        \<and> distinct (map signal_id (trackedSignals st))
      \<longrightarrow> s \<in> set (trackedSignals (processTicks ticks st))
          \<and> getSignalById (storage (processTicks ticks st)) (signal_id s)
              = getSignalById (storage st) (signal_id s))"
proof (intro conjI impI)
  show "\<forall>p h. signalHit s p \<noteq> Some (WIN, h)" if "takeProfitPrice s = None"
    using that by (auto simp: signalHit_def reachedUp_def reachedDown_def)
  show "\<forall>p h. signalHit s p \<noteq> Some (LOSS, h)" if "stopLossPrice s = None"
    using that by (auto simp: signalHit_def reachedUp_def reachedDown_def)
next
  assume a: "takeProfitPrice s = None \<and> stopLossPrice s = None \<and> s \<in> set (trackedSignals st)
        \<and> distinct (map signal_id (trackedSignals st))"
  have "s \<in> set (trackedSignals st) \<Longrightarrow> distinct (map signal_id (trackedSignals st)) \<Longrightarrow>
      s \<in> set (trackedSignals (processTicks ticks st))
      \<and> getSignalById (storage (processTicks ticks st)) (signal_id s) = getSignalById (storage st) (signal_id s)"
  proof (induction ticks arbitrary: st)
    case Nil
    then show ?case by simp
  next
    case (Cons t ticks)
    from a have n: "takeProfitPrice s = None" "stopLossPrice s = None" by simp_all
    note k = processTickData_keeps_unleveled[OF n Cons.prems]
    from Cons.IH[of "processTickData t st"] k show ?case by simp
  qed
  with a show "s \<in> set (trackedSignals (processTicks ticks st))" 
    and "getSignalById (storage (processTicks ticks st)) (signal_id s) = getSignalById (storage st) (signal_id s)"
    by simp_all
qed

theorem null_levels_never_close_witness:
  "signalHit unleveledSignal 103 = None
   \<and> unleveledSignal \<in> set (trackedSignals (processTicks [exampleTick, exampleTick] unleveledTracker))
   \<and> getSignalById (storage (processTicks [exampleTick, exampleTick] unleveledTracker)) 1
       = Some unleveledSignal"
proof -
  have n: "takeProfitPrice unleveledSignal = None" "stopLossPrice unleveledSignal = None"
    by (simp_all add: unleveledSignal_def)
  have t: "unleveledSignal \<in> set (trackedSignals unleveledTracker)"
    "distinct (map signal_id (trackedSignals unleveledTracker))"
    by (simp_all add: unleveledTracker_def)
  have i: "signal_id unleveledSignal = 1" by (simp add: unleveledSignal_def exampleSignal_def)
  have g: "getSignalById (storage unleveledTracker) 1 = Some unleveledSignal"
    by (simp add: unleveledTracker_def getSignalById_def i)
  show ?thesis
    using null_levels_never_close[of unleveledSignal unleveledTracker "[exampleTick, exampleTick]"] n t g
    by (simp add: no_levels_no_hit i)
qed

section \<open>Properties of risk validation and conflict prevention\<close>

text \<open>
  The loop of \<^verbatim>\<open>shouldCreateDespiteConflicts\<close> returns at the first conflict
  the candidate beats: it accepts as soon as some conflict is beaten.
\<close>

lemma shouldCreate_iff_beats_some:
  "shouldCreateDespiteConflicts sd cs \<longleftrightarrow>
     (\<exists>c \<in> set cs. ins_confidence sd > confidence c
        \<or> (ins_confidence sd = confidence c \<and> newPriorityOf sd < conflictPriorityOf c))"
  by (induction cs) auto

lemmas sm_defs = createSignalWithConflictPrevention_def calculateEnhancedRiskParams_def
  validateSignalRisk_def shouldStopTrading_def getConfidenceBasedRisk_def
  getConsecutiveLossAdjustment_def calculateBaseStopLoss_def calculateTrailingStop_def
  riskManagement0_def defaultConfig_def checkForConflicts_def conflictsWith_def
  getActiveSignals_def categorizeSignal_def createSignal_def updateSignal_def
  newPriorityOf_def conflictPriorityOf_def toFixed_def Let_def

text \<open>A rejected candidate leaves the repository as it was.\<close>

lemma rejected_candidate_no_mutation:
  "fst (createSignalWithConflictPrevention svc signalData db) = None \<Longrightarrow>
     snd (createSignalWithConflictPrevention svc signalData db) = db"
  by (simp add: createSignalWithConflictPrevention_def Let_def split: if_splits)

text \<open>
  Claim C2. The claim asks that a candidate with conflicts is created only when it beats
  every conflicting active signal. Submitting the three sample candidates in turn: A
  (entry 100, confidence 90) and B (entry 101.5, confidence 60) do not conflict and are
  both active; C (entry 100.8, confidence 70) conflicts with both, beats only B, is
  created all the same, and A is deactivated as REPLACED by a candidate of lower
  confidence.
\<close>

theorem conflict_replaces_higher_confidence:
  "map (\<lambda>s. (signal_id s, confidence s, isActive s, result s)) (signals storageAB)
     = [(2, 60, True, None), (1, 90, True, None)]
   \<and> map signal_id (checkForConflicts storageAB candidateC) = [2, 1]
   \<and> map_option confidence (fst (createSignalWithConflictPrevention riskManagement0 candidateC storageAB))
       = Some 70
   \<and> map (\<lambda>s. (signal_id s, confidence s, isActive s, result s))
        (signals (snd (createSignalWithConflictPrevention riskManagement0 candidateC storageAB)))
       = [(3, 70, True, None), (2, 60, False, Some REPLACED), (1, 90, False, Some REPLACED)]"
  by (simp add: storageAB_def sm_defs candidateA_def candidateB_def candidateC_def emptyStorage_def)

text \<open>
  Claim C8, as stated: validation rejects whenever the risk-reward ratio is below the
  configured minimum. It does not: with the minimum configured at 2.5, parameters with a
  ratio of 2.2 are valid and raise no warning.
\<close>

theorem validation_ignores_configured_minimum:
  "riskRewardRatio riskParams22 < cfg_riskRewardRatio (config riskManagement0)
   \<and> isValid (validateSignalRisk riskManagement0 80 riskParams22)
   \<and> warnings (validateSignalRisk riskManagement0 80 riskParams22) = []"
  by (simp add: validateSignalRisk_def riskParams22_def riskManagement0_def defaultConfig_def
        shouldStopTrading_def Let_def)

lemma validateSignalRisk_isValid:
  "isValid (validateSignalRisk svc c rp) \<longleftrightarrow>
     \<not> riskRewardRatio rp < 2 \<and> \<not> maxLossPercentage rp > 2 \<and> \<not> shouldStopTrading svc"
  by (simp add: validateSignalRisk_def Let_def)

lemma validateSignalRisk_warnings:
  "set (warnings (validateSignalRisk svc c rp)) =
     (if riskRewardRatio rp < 2 then {RiskRewardBelowMinimum (riskRewardRatio rp)} else {})
     \<union> (if maxLossPercentage rp > 2 then {RiskPerTradeExceedsMaximum (maxLossPercentage rp)} else {})
     \<union> (if consecutiveLosses svc \<ge> 3 then {ConsecutiveLossesWarning (consecutiveLosses svc)} else {})
     \<union> (if c < 75 then {ConfidenceBelowRecommended c} else {})
     \<union> (if shouldStopTrading svc then {MaximumDrawdownReached} else {})"
  by (simp add: validateSignalRisk_def Let_def)

text \<open>
  Claim C8, amended. Validation is invalid exactly when the risk-reward ratio is below the
  fixed floor 2.0, or the per-trade maximum loss exceeds 2 percent, or the drawdown gate
  \<^verbatim>\<open>shouldStopTrading\<close> is breached; each of the three adds its warning; and a
  candidate whose validation is invalid creates no signal and leaves the repository as
  it was. In particular a ratio of 1.8 is invalid with the risk-reward warning.
\<close>

theorem validation_rejects_on_fixed_limits:
  "(isValid (validateSignalRisk svc c rp) \<longleftrightarrow>
      \<not> riskRewardRatio rp < 2 \<and> \<not> maxLossPercentage rp > 2 \<and> \<not> shouldStopTrading svc)
   \<and> (riskRewardRatio rp < 2 \<longrightarrow>
        RiskRewardBelowMinimum (riskRewardRatio rp) \<in> set (warnings (validateSignalRisk svc c rp)))
   \<and> (maxLossPercentage rp > 2 \<longrightarrow>
        RiskPerTradeExceedsMaximum (maxLossPercentage rp) \<in> set (warnings (validateSignalRisk svc c rp)))
   \<and> (shouldStopTrading svc \<longrightarrow>
        MaximumDrawdownReached \<in> set (warnings (validateSignalRisk svc c rp)))
   \<and> (\<not> isValid (validateSignalRisk svc (ins_confidence signalData) (riskParamsFor svc signalData))
        \<longrightarrow> createSignalWithConflictPrevention svc signalData db = (None, db))"
proof (intro conjI)
  show "isValid (validateSignalRisk svc c rp) \<longleftrightarrow>
      \<not> riskRewardRatio rp < 2 \<and> \<not> maxLossPercentage rp > 2 \<and> \<not> shouldStopTrading svc"
    by (rule validateSignalRisk_isValid)
  show "\<not> isValid (validateSignalRisk svc (ins_confidence signalData) (riskParamsFor svc signalData))
        \<longrightarrow> createSignalWithConflictPrevention svc signalData db = (None, db)"
    by (simp add: createSignalWithConflictPrevention_def riskParamsFor_def Let_def)
qed (simp_all add: validateSignalRisk_warnings)

theorem validation_rejects_on_fixed_limits_witness:
  "cfg_riskRewardRatio (config riskManagement0) = 2.5
   \<and> riskRewardRatio riskParams18 = 1.8
   \<and> \<not> isValid (validateSignalRisk riskManagement0 80 riskParams18)
   \<and> RiskRewardBelowMinimum 1.8 \<in> set (warnings (validateSignalRisk riskManagement0 80 riskParams18))
   \<and> riskRewardRatio (riskParamsFor lowRatioService candidateA) = 1.8
   \<and> createSignalWithConflictPrevention lowRatioService candidateA emptyStorage = (None, emptyStorage)
   \<and> maxLossPercentage riskParamsWide = 2.5
   \<and> \<not> isValid (validateSignalRisk riskManagement0 80 riskParamsWide)
   \<and> RiskPerTradeExceedsMaximum 2.5 \<in> set (warnings (validateSignalRisk riskManagement0 80 riskParamsWide))
   \<and> shouldStopTrading drawdownService
   \<and> \<not> isValid (validateSignalRisk drawdownService 80 riskParams22)
   \<and> MaximumDrawdownReached \<in> set (warnings (validateSignalRisk drawdownService 80 riskParams22))"
proof -
  have r: "riskRewardRatio riskParams18 = 1.8"
    by (simp add: riskParams18_def riskParams22_def)
  have r2: "riskRewardRatio (riskParamsFor lowRatioService candidateA) = 1.8"
    by (simp add: riskParamsFor_def calculateEnhancedRiskParams_def lowRatioService_def
          riskManagement0_def defaultConfig_def Let_def)
  note a = validation_rejects_on_fixed_limits[of riskManagement0 80 riskParams18 candidateA emptyStorage]
  note b = validation_rejects_on_fixed_limits[of lowRatioService 90 "riskParamsFor lowRatioService candidateA" candidateA emptyStorage]
  have c90: "ins_confidence candidateA = 90" by (simp add: candidateA_def)
  from a r have 1: "\<not> isValid (validateSignalRisk riskManagement0 80 riskParams18)" by simp
  from a r have 2: "RiskRewardBelowMinimum 1.8 \<in> set (warnings (validateSignalRisk riskManagement0 80 riskParams18))"
    by simp
  from b r2 c90 have 3: "createSignalWithConflictPrevention lowRatioService candidateA emptyStorage = (None, emptyStorage)"
    by simp
  have w: "maxLossPercentage riskParamsWide = 2.5"
    by (simp add: riskParamsWide_def riskParams22_def)
  have d: "shouldStopTrading drawdownService"
    by (simp add: drawdownService_def updateTradeResult_def shouldStopTrading_def
          riskManagement0_def defaultConfig_def Let_def)
  note c = validation_rejects_on_fixed_limits[of riskManagement0 80 riskParamsWide candidateA emptyStorage]
  note e = validation_rejects_on_fixed_limits[of drawdownService 80 riskParams22 candidateA emptyStorage]
  from c w have 4: "\<not> isValid (validateSignalRisk riskManagement0 80 riskParamsWide)" by simp
  from c w have 5: "RiskPerTradeExceedsMaximum 2.5
      \<in> set (warnings (validateSignalRisk riskManagement0 80 riskParamsWide))" by simp
  from e d have 6: "\<not> isValid (validateSignalRisk drawdownService 80 riskParams22)" by simp
  from e d have 7: "MaximumDrawdownReached
      \<in> set (warnings (validateSignalRisk drawdownService 80 riskParams22))" by simp
  have cfg: "cfg_riskRewardRatio (config riskManagement0) = 2.5"
    by (simp add: riskManagement0_def defaultConfig_def)
  from cfg r 1 2 r2 3 w 4 5 d 6 7 show ?thesis by blast
qed

section \<open>Properties of signal generation\<close>

lemma score_components_nonneg:
  "0 \<le> fst (scoreRSI inp)" "0 \<le> snd (scoreRSI inp)"
  "0 \<le> fst (scoreMACD inp)" "0 \<le> snd (scoreMACD inp)"
  "0 \<le> fst (scoreMA cp inp)" "0 \<le> snd (scoreMA cp inp)"
  "0 \<le> fst (scoreBollinger cp inp)" "0 \<le> snd (scoreBollinger cp inp)"
  "0 \<le> fst (scoreMomentum inp)" "0 \<le> snd (scoreMomentum inp)"
  "0 \<le> fst (scoreStructure cp inp)" "0 \<le> snd (scoreStructure cp inp)"
  by (simp_all add: scoreRSI_def scoreMACD_def scoreMA_def scoreBollinger_def scoreMomentum_def
        scoreStructure_def Let_def)

lemma bullishScore_nonneg: "0 \<le> bullishScore cp inp"
  using score_components_nonneg by (simp add: bullishScore_def scores_def)

lemma bearishScore_nonneg: "0 \<le> bearishScore cp inp"
  using score_components_nonneg by (simp add: bearishScore_def scores_def)

lemma technicalDecision_small_gap:
  "\<bar>b - e\<bar> \<le> 20 \<Longrightarrow> fst (technicalDecision b e) = HOLD \<or> snd (technicalDecision b e) = 60"
  by (auto simp: technicalDecision_def Let_def)

lemma technicalDecision_trade:
  "fst (technicalDecision b e) \<noteq> HOLD \<Longrightarrow>
     60 \<le> snd (technicalDecision b e) \<and> snd (technicalDecision b e) \<le> 85"
  by (auto simp: technicalDecision_def Let_def split: if_splits)

lemma technicalDecision_lower:
  "0 \<le> b \<Longrightarrow> 0 \<le> e \<Longrightarrow> 30 \<le> snd (technicalDecision b e)"
  by (auto simp: technicalDecision_def Let_def)

lemma adjustConfidence_eq:
  "adjustConfidence st inp conf = min (conf + confirmationAdjustment st inp) 95"
  by (auto simp: adjustConfidence_def confirmationAdjustment_def Let_def)

lemma confirmationAdjustment_lower: "- 15 \<le> confirmationAdjustment st inp"
  by (simp add: confirmationAdjustment_def)

text \<open>
  Claim C9. With at least the required lookback of 20 prices the generator returns a
  result; it is HOLD whenever the gap between the bullish and the bearish score does not
  exceed 20; for a BUY or SELL the technical confidence is at most 85 before the
  adjustments, and the returned confidence is that value, less 15 under high volatility,
  plus the confirmation adjustments, capped at 95; the returned confidence always lies
  between 0 and 95.
\<close>

theorem generateSignal_hold_and_confidence:
  assumes "length marketDataHistory \<ge> 20"
  shows "\<exists>r. generateSignal marketDataHistory inp = Some r
    \<and> (\<bar>bullishScore (currentPriceOf marketDataHistory) inp
          - bearishScore (currentPriceOf marketDataHistory) inp\<bar> \<le> 20
       \<longrightarrow> sr_signalType r = HOLD)
    \<and> (sr_signalType r \<noteq> HOLD \<longrightarrow>
         snd (technicalDecision (bullishScore (currentPriceOf marketDataHistory) inp)
                (bearishScore (currentPriceOf marketDataHistory) inp)) \<le> 85
         \<and> sr_confidence r =
             min (snd (technicalDecision (bullishScore (currentPriceOf marketDataHistory) inp)
                         (bearishScore (currentPriceOf marketDataHistory) inp))
                  - (if volatility (marketStructure inp) = HIGH then 15 else 0)
                  + confirmationAdjustment (sr_signalType r) inp) 95)
    \<and> 0 \<le> sr_confidence r \<and> sr_confidence r \<le> 95"
proof -
  define b where "b = bullishScore (currentPriceOf marketDataHistory) inp"
  define e where "e = bearishScore (currentPriceOf marketDataHistory) inp"
  define d where "d = technicalDecision b e"
  define conf where "conf = reduceForVolatility (marketStructure inp) (snd d)"
  define st where "st = (if conf < 70 then HOLD else fst d)"
  define r where "r = \<lparr>sr_signalType = st,
             sr_confidence = adjustConfidence st inp conf,
             sr_takeProfitPrice = map_option fst (if st \<noteq> HOLD
                then calculateTakeProfitStopLoss (currentPriceOf marketDataHistory) st conf (marketStructure inp)
                else None),
             sr_stopLossPrice = map_option snd (if st \<noteq> HOLD
                then calculateTakeProfitStopLoss (currentPriceOf marketDataHistory) st conf (marketStructure inp)
                else None)\<rparr>"
  have nn: "0 \<le> b" "0 \<le> e"
    by (simp_all add: b_def e_def bullishScore_nonneg bearishScore_nonneg)
  have lo: "30 \<le> snd d" unfolding d_def using nn by (rule technicalDecision_lower)
  have conf_lo: "30 \<le> conf" using lo by (simp add: conf_def reduceForVolatility_def)
  have conf_le: "conf \<le> snd d" using lo by (simp add: conf_def reduceForVolatility_def)
  have gap: "st = HOLD" if "\<bar>b - e\<bar> \<le> 20"
  proof -
    from technicalDecision_small_gap[OF that] have "fst d = HOLD \<or> snd d = 60"
      by (simp add: d_def)
    then show ?thesis using conf_le by (auto simp: st_def)
  qed
  have trade: "snd d \<le> 85 \<and> conf = snd d - (if volatility (marketStructure inp) = HIGH then 15 else 0)"
    if "st \<noteq> HOLD"
  proof -
    from that have c70: "70 \<le> conf" and fd: "fst d \<noteq> HOLD"
      by (auto simp: st_def split: if_splits)
    from technicalDecision_trade[of b e] fd have "snd d \<le> 85" by (simp add: d_def)
    moreover have "conf = snd d - (if volatility (marketStructure inp) = HIGH then 15 else 0)"
      using c70 by (auto simp: conf_def reduceForVolatility_def max_def split: if_splits)
    ultimately show ?thesis by simp
  qed
  have eq: "generateSignal marketDataHistory inp = Some r"
    unfolding generateSignal_def Let_def r_def st_def conf_def d_def b_def e_def
    using assms by simp
  have c: "sr_confidence r = min (conf + confirmationAdjustment st inp) 95"
    by (simp add: r_def adjustConfidence_eq)
  have t: "sr_signalType r = st" by (simp add: r_def)
  have 1: "\<bar>b - e\<bar> \<le> 20 \<longrightarrow> sr_signalType r = HOLD"
    using gap t by simp
  have 2: "sr_signalType r \<noteq> HOLD \<longrightarrow> snd d \<le> 85
      \<and> sr_confidence r = min (snd d - (if volatility (marketStructure inp) = HIGH then 15 else 0)
                                  + confirmationAdjustment (sr_signalType r) inp) 95"
    using trade t c by simp
  have 3: "0 \<le> sr_confidence r \<and> sr_confidence r \<le> 95"
    using conf_lo confirmationAdjustment_lower[of st inp] c by simp
  from eq 1 2 3 show ?thesis
    unfolding d_def b_def e_def by blast
qed

theorem generateSignal_hold_and_confidence_witness:
  "length flatHistory \<ge> 20
   \<and> (\<exists>r. generateSignal flatHistory bullishInputs = Some r \<and> sr_signalType r = BUY
          \<and> sr_confidence r = 95)
   \<and> \<bar>bullishScore (currentPriceOf flatHistory) neutralInputs
        - bearishScore (currentPriceOf flatHistory) neutralInputs\<bar> = 15
   \<and> (\<exists>r. generateSignal flatHistory neutralInputs = Some r \<and> sr_signalType r = HOLD)"
proof -
  have l: "length flatHistory \<ge> 20" by (simp add: flatHistory_def)
  have cp: "currentPriceOf flatHistory = 100"
    by (simp add: currentPriceOf_def flatHistory_def)
  have b: "bullishScore 100 bullishInputs = 100"
    by (simp add: bullishScore_def scores_def bullishInputs_def scoreRSI_def scoreMACD_def scoreMA_def
          scoreBollinger_def scoreMomentum_def scoreStructure_def Let_def)
  have e: "bearishScore 100 bullishInputs = 0"
    by (simp add: bearishScore_def scores_def bullishInputs_def scoreRSI_def scoreMACD_def scoreMA_def
          scoreBollinger_def scoreMomentum_def scoreStructure_def Let_def)
  have d: "technicalDecision 100 0 = (BUY, 85)"
    by (simp add: technicalDecision_def Let_def)
  have v: "volatility (marketStructure bullishInputs) = LOW"
    by (simp add: bullishInputs_def)
  have ca: "confirmationAdjustment BUY bullishInputs = 15"
    by (simp add: confirmationAdjustment_def bullishInputs_def)
  have g: "sr_signalType (the (generateSignal flatHistory bullishInputs)) = BUY"
    using l by (simp add: generateSignal_def Let_def cp b e d reduceForVolatility_def v)
  from generateSignal_hold_and_confidence[OF l, of bullishInputs] obtain r where
    r: "generateSignal flatHistory bullishInputs = Some r"
    and c: "sr_signalType r \<noteq> HOLD \<longrightarrow>
         sr_confidence r =
             min (snd (technicalDecision (bullishScore (currentPriceOf flatHistory) bullishInputs)
                         (bearishScore (currentPriceOf flatHistory) bullishInputs))
                  - (if volatility (marketStructure bullishInputs) = HIGH then 15 else 0)
                  + confirmationAdjustment (sr_signalType r) bullishInputs) 95"
    by blast
  from g r have t: "sr_signalType r = BUY" by simp
  with c have "sr_confidence r = 95"
    by (simp add: cp b e d v ca)
  then have first: "\<exists>r. generateSignal flatHistory bullishInputs = Some r \<and> sr_signalType r = BUY
          \<and> sr_confidence r = 95"
    using r t by simp
  have nb: "bullishScore 100 neutralInputs = 15"
    by (simp add: bullishScore_def scores_def neutralInputs_def bullishInputs_def scoreRSI_def
          scoreMACD_def scoreMA_def scoreBollinger_def scoreMomentum_def scoreStructure_def Let_def)
  have ne: "bearishScore 100 neutralInputs = 0"
    by (simp add: bearishScore_def scores_def neutralInputs_def bullishInputs_def scoreRSI_def
          scoreMACD_def scoreMA_def scoreBollinger_def scoreMomentum_def scoreStructure_def Let_def)
  have gap: "\<bar>bullishScore (currentPriceOf flatHistory) neutralInputs
        - bearishScore (currentPriceOf flatHistory) neutralInputs\<bar> = 15"
    by (simp add: cp nb ne)
  from generateSignal_hold_and_confidence[OF l, of neutralInputs] gap
  have second: "\<exists>r. generateSignal flatHistory neutralInputs = Some r \<and> sr_signalType r = HOLD"
    by auto
  from l first gap second show ?thesis by blast
qed

section \<open>Properties of the level-generation paths\<close>

text \<open>
  The risk manager's own levels follow the direction: for a positive entry price and
  positive percentages a BUY has its stop below and its target above the entry, and a
  SELL the reverse.
\<close>

lemma enhancedRiskParams_ordering:
  assumes "0 < entryP" and "0 < cfg_riskRewardRatio (config svc)"
    and "0 < maxLossPercentage (calculateEnhancedRiskParams svc symb st entryP conf vol bal)"
  shows "if st = BUY
         then rp_stopLossPrice (calculateEnhancedRiskParams svc symb st entryP conf vol bal) < entryP
              \<and> entryP < rp_takeProfitPrice (calculateEnhancedRiskParams svc symb st entryP conf vol bal)
         else rp_takeProfitPrice (calculateEnhancedRiskParams svc symb st entryP conf vol bal) < entryP
              \<and> entryP < rp_stopLossPrice (calculateEnhancedRiskParams svc symb st entryP conf vol bal)"
proof -
  define sl where "sl = maxLossPercentage (calculateEnhancedRiskParams svc symb st entryP conf vol bal)"
  have sl: "0 < sl" using assms(3) by (simp add: sl_def)
  have tp: "0 < sl * cfg_riskRewardRatio (config svc)" using sl assms(2) by simp
  have slp: "rp_stopLossPrice (calculateEnhancedRiskParams svc symb st entryP conf vol bal)
      = (if st = BUY then entryP * (1 - sl / 100) else entryP * (1 + sl / 100))"
    by (simp add: sl_def calculateEnhancedRiskParams_def Let_def)
  have tpp: "rp_takeProfitPrice (calculateEnhancedRiskParams svc symb st entryP conf vol bal)
      = (if st = BUY then entryP * (1 + sl * cfg_riskRewardRatio (config svc) / 100)
         else entryP * (1 - sl * cfg_riskRewardRatio (config svc) / 100))"
    by (simp add: sl_def calculateEnhancedRiskParams_def Let_def)
  have up: "entryP < entryP * (1 + x / 100)" if "0 < x" for x
    using that assms(1) by (simp add: algebra_simps)
  have down: "entryP * (1 - x / 100) < entryP" if "0 < x" for x
    using that assms(1) by (simp add: algebra_simps)
  show ?thesis
    unfolding slp tpp using up[OF sl] down[OF sl] up[OF tp] down[OF tp] by simp
qed

lemma bearish_technical:
  "ts_action (generateTechnicalSignal bearishIndicators) = SELL
   \<and> ts_confidence (generateTechnicalSignal bearishIndicators) = 90
   \<and> length (ts_reasoning (generateTechnicalSignal bearishIndicators)) = 5"
  by (simp add: generateTechnicalSignal_def bearishIndicators_def techRSI_def techMACD_def
        techBollinger_def techMA_def techMomentum_def Let_def)

text \<open>
  Claim C1. The claim asks that a SELL signal has its take-profit below and its stop-loss
  above the entry price on both level-generation paths.
  \<^verbatim>\<open>calculateRiskLevels\<close> has no direction parameter: for the sample bearish
  indicators on V75 at price 100 the generator returns a SELL signal that passes the
  quality check, with the stop-loss 98.2 below the entry and the take-profit 104.914
  above it, the ordering of a BUY.
\<close>

theorem consolidated_sell_levels_on_buy_side:
  "\<exists>s. generateSignalForSymbol ''V75'' 100 bearishIndicators 50 [] = Some s
     \<and> validateSignalQuality s
     \<and> cs_action s = SELL
     \<and> cs_entryPrice s = 100
     \<and> cs_stopLossPrice s = 98.2
     \<and> cs_takeProfitPrice s = 104.914
     \<and> cs_stopLossPrice s < cs_entryPrice s \<and> cs_entryPrice s < cs_takeProfitPrice s"
  by (simp add: generateSignalForSymbol_def validateSignalQuality_def bearish_technical
        combinedConfidence_def determineTimeframe_def calculateRiskLevels_def
        timeframeMultipliers_def MIN_CONFIDENCE_def MIN_RISK_REWARD_def js_round_def Let_def)
     (simp add: bearishIndicators_def)

section \<open>Properties of the tactical assistant\<close>

subsection \<open>One check\<close>

lemma check_other:
  "sid \<noteq> signalId \<Longrightarrow> fst (checkAndGenerateAlerts now so signalId symb health S) sid = S sid"
  by (simp add: checkAndGenerateAlerts_def updateSignalStateOnly_def Let_def
        split: option.splits)

lemma check_peak:
  "fst (checkAndGenerateAlerts now (Some signal) signalId symb health S) signalId \<noteq> None
   \<and> peakOf (fst (checkAndGenerateAlerts now (Some signal) signalId symb health S)) signalId
       = Some (max (previousPeak (S signalId)) (cycleProfitPercent signal (hs_currentPrice health)))"
  by (simp add: checkAndGenerateAlerts_def updateSignalStateOnly_def peakOf_def Let_def
        split: option.splits)

lemma check_alert:
  assumes "snd (checkAndGenerateAlerts now so signalId symb health S) = Some a"
  shows "al_signalId a = signalId \<and> al_timestamp a = now
    \<and> lastTelegramOf (fst (checkAndGenerateAlerts now so signalId symb health S)) signalId = Some now
    \<and> (alertType a \<noteq> INVALIDATED_ALERT \<longrightarrow> \<not> throttled now (S signalId))"
proof (cases so)
  case None
  with assms show ?thesis by (simp add: checkAndGenerateAlerts_def)
next
  case (Some signal)
  let ?p = "cycleProfitPercent signal (hs_currentPrice health)"
  let ?pk = "max (previousPeak (S signalId)) ?p"
  from assms Some have nt: "\<not> (hs_status health \<noteq> INVALIDATED \<and> throttled now (S signalId))"
    by (auto simp: checkAndGenerateAlerts_def Let_def split: if_splits)
  with assms Some have ca: "cycleAlert now signal signalId symb health (S signalId) ?p ?pk = Some a"
    by (auto simp: checkAndGenerateAlerts_def Let_def split: option.splits)
  then have props: "al_signalId a = signalId" "al_timestamp a = now"
    "alertType a \<noteq> INVALIDATED_ALERT \<longrightarrow> \<not> isSignalInvalidated ?p health"
    by (auto simp: cycleAlert_def Let_def split: if_splits)
  have tel: "lastTelegramOf (fst (checkAndGenerateAlerts now so signalId symb health S)) signalId = Some now"
    using Some nt ca by (auto simp add: checkAndGenerateAlerts_def Let_def lastTelegramOf_def)
  have "alertType a \<noteq> INVALIDATED_ALERT \<longrightarrow> hs_status health \<noteq> INVALIDATED"
    using props(3) by (auto simp: isSignalInvalidated_def)
  with nt props tel show ?thesis by blast
qed

lemma check_silent_telegram:
  assumes "snd (checkAndGenerateAlerts now so signalId symb health S) = None"
  shows "lastTelegramOf (fst (checkAndGenerateAlerts now so signalId symb health S)) sid
     = lastTelegramOf S sid"
proof (cases "sid = signalId")
  case False
  then show ?thesis by (simp add: lastTelegramOf_def check_other)
next
  case True
  show ?thesis
    using assms unfolding True
    by (auto simp: checkAndGenerateAlerts_def updateSignalStateOnly_def lastTelegramOf_def Let_def
          split: option.splits if_splits)
qed

lemma runCheck_telegram_kept:
  assumes "lastTelegramOf S sid = Some t"
  shows "lastTelegramOf (fst (runCheck c S)) sid = Some t
       \<or> lastTelegramOf (fst (runCheck c S)) sid = Some (ac_now c)"
proof (cases "snd (runCheck c S)")
  case None
  then show ?thesis using assms by (simp add: runCheck_def check_silent_telegram)
next
  case (Some a)
  show ?thesis
  proof (cases "sid = ac_signalId c")
    case True
    with check_alert[OF Some[unfolded runCheck_def]] show ?thesis by (simp add: runCheck_def)
  next
    case False
    with assms show ?thesis by (simp add: runCheck_def lastTelegramOf_def check_other)
  qed
qed

lemma runChecks_spaced:
  assumes "sorted (map ac_now cs)"
  shows "sorted_wrt spaced (snd (runChecks cs S))
    \<and> (\<forall>a \<in> set (snd (runChecks cs S)). \<forall>t.
          alertType a \<noteq> INVALIDATED_ALERT \<and> lastTelegramOf S (al_signalId a) = Some t
          \<and> (\<forall>c \<in> set cs. t \<le> ac_now c)
          \<longrightarrow> al_timestamp a - t \<ge> TELEGRAM_THROTTLE_INTERVAL)"
  using assms
proof (induction cs arbitrary: S)
  case Nil
  then show ?case by simp
next
  case (Cons c cs)
  let ?S' = "fst (runCheck c S)"
  let ?rest = "snd (runChecks cs ?S')"
  from Cons.prems have later: "\<forall>c' \<in> set cs. ac_now c \<le> ac_now c'" and srt: "sorted (map ac_now cs)"
    by simp_all
  note IH = Cons.IH[OF srt, of ?S']
  from IH have IH1: "sorted_wrt spaced ?rest" by blast
  have IH2: "al_timestamp a - t \<ge> TELEGRAM_THROTTLE_INTERVAL"
    if "a \<in> set ?rest" "alertType a \<noteq> INVALIDATED_ALERT"
       "lastTelegramOf ?S' (al_signalId a) = Some t" "\<forall>c' \<in> set cs. t \<le> ac_now c'" for a t
    using IH that by blast
  have out: "snd (runChecks (c # cs) S) = (case snd (runCheck c S) of None \<Rightarrow> [] | Some a \<Rightarrow> [a]) @ ?rest"
    by (simp add: Let_def)
  show ?case
  proof (cases "snd (runCheck c S)")
    case None
    have "al_timestamp a - t \<ge> TELEGRAM_THROTTLE_INTERVAL"
      if a: "a \<in> set ?rest" "alertType a \<noteq> INVALIDATED_ALERT"
         "lastTelegramOf S (al_signalId a) = Some t" "\<forall>c' \<in> set (c # cs). t \<le> ac_now c'" for a t
    proof -
      from None have "lastTelegramOf ?S' (al_signalId a) = lastTelegramOf S (al_signalId a)"
        by (simp add: runCheck_def check_silent_telegram)
      with a show ?thesis by (intro IH2) simp_all
    qed
    then have 2: "\<forall>a \<in> set ?rest. \<forall>t.
          alertType a \<noteq> INVALIDATED_ALERT \<and> lastTelegramOf S (al_signalId a) = Some t
          \<and> (\<forall>c' \<in> set (c # cs). t \<le> ac_now c')
          \<longrightarrow> al_timestamp a - t \<ge> TELEGRAM_THROTTLE_INTERVAL"
      by blast
    have o: "snd (runChecks (c # cs) S) = ?rest"
      by (simp only: out None option.simps append_Nil)
    show ?thesis unfolding o using IH1 2 by (rule conjI)
  next
    case (Some a0)
    note ca = check_alert[OF Some[unfolded runCheck_def]]
    from ca have a0: "al_signalId a0 = ac_signalId c" "al_timestamp a0 = ac_now c"
      "lastTelegramOf ?S' (ac_signalId c) = Some (ac_now c)"
      "alertType a0 \<noteq> INVALIDATED_ALERT \<longrightarrow> \<not> throttled (ac_now c) (S (ac_signalId c))"
      by (simp_all add: runCheck_def)
    have head: "spaced a0 y" if "y \<in> set ?rest" for y
    proof -
      have "al_timestamp y - ac_now c \<ge> TELEGRAM_THROTTLE_INTERVAL"
        if "al_signalId a0 = al_signalId y" "alertType y \<noteq> INVALIDATED_ALERT"
        using IH2[OF \<open>y \<in> set ?rest\<close> that(2), of "ac_now c"] a0 that later by simp
      then show ?thesis by (simp add: spaced_def a0)
    qed
    have second: "al_timestamp a - t \<ge> TELEGRAM_THROTTLE_INTERVAL"
      if a: "a \<in> set (a0 # ?rest)" "alertType a \<noteq> INVALIDATED_ALERT"
         "lastTelegramOf S (al_signalId a) = Some t" "\<forall>c' \<in> set (c # cs). t \<le> ac_now c'" for a t
    proof (cases "a = a0")
      case True
      with a a0 have "\<not> throttled (ac_now c) (S (ac_signalId c))"
        and "lastTelegramOf S (ac_signalId c) = Some t" by simp_all
      then have "\<not> ac_now c - t < TELEGRAM_THROTTLE_INTERVAL"
        by (auto simp: throttled_def lastTelegramOf_def split: option.splits)
      with True a0 show ?thesis by simp
    next
      case False
      with a have ar: "a \<in> set ?rest" by simp
      from runCheck_telegram_kept[OF a(3), of c]
      consider "lastTelegramOf ?S' (al_signalId a) = Some t"
        | "lastTelegramOf ?S' (al_signalId a) = Some (ac_now c)" by blast
      then show ?thesis
      proof cases
        case 1
        from IH2[OF ar a(2) 1] a(4) show ?thesis by simp
      next
        case 2
        from IH2[OF ar a(2) 2] later have "al_timestamp a - ac_now c \<ge> TELEGRAM_THROTTLE_INTERVAL"
          by simp
        moreover from a(4) have "t \<le> ac_now c" by simp
        ultimately show ?thesis by simp
      qed
    qed
    have o: "snd (runChecks (c # cs) S) = a0 # ?rest"
      by (simp only: out Some option.simps append_Cons append_Nil)
    have 1: "sorted_wrt spaced (a0 # ?rest)"
      using IH1 head by simp
    have 2: "\<forall>a \<in> set (a0 # ?rest). \<forall>t.
          alertType a \<noteq> INVALIDATED_ALERT \<and> lastTelegramOf S (al_signalId a) = Some t
          \<and> (\<forall>c' \<in> set (c # cs). t \<le> ac_now c')
          \<longrightarrow> al_timestamp a - t \<ge> TELEGRAM_THROTTLE_INTERVAL"
    proof (intro ballI allI impI, elim conjE)
      fix a t
      assume "a \<in> set (a0 # ?rest)" "alertType a \<noteq> INVALIDATED_ALERT"
        "lastTelegramOf S (al_signalId a) = Some t" "\<forall>c' \<in> set (c # cs). t \<le> ac_now c'"
      then show "al_timestamp a - t \<ge> TELEGRAM_THROTTLE_INTERVAL" by (rule second)
    qed
    show ?thesis unfolding o using 1 2 by (rule conjI)
  qed
qed

lemma invalidated_alerts_at_once:
  assumes "hs_status health = INVALIDATED"
  shows "\<exists>a. snd (checkAndGenerateAlerts now (Some signal) signalId symb health S) = Some a
      \<and> alertType a = INVALIDATED_ALERT \<and> al_urgency a = URGENCY_HIGH
      \<and> al_timestamp a = now \<and> al_signalId a = signalId"
  using assms
  by (simp add: checkAndGenerateAlerts_def cycleAlert_def isSignalInvalidated_def Let_def)

lemma silent_cycle_updates_state:
  assumes "snd (checkAndGenerateAlerts now (Some signal) signalId symb health S) = None"
  shows "fst (checkAndGenerateAlerts now (Some signal) signalId symb health S) =
      updateSignalStateOnly signalId health (cycleProfitPercent signal (hs_currentPrice health))
        (max (previousPeak (S signalId)) (cycleProfitPercent signal (hs_currentPrice health)))
        (hs_currentPrice health)
        (case S signalId of None \<Rightarrow> None | Some ls \<Rightarrow> lastAlertTime ls) S"
  using assms
  by (auto simp: checkAndGenerateAlerts_def Let_def split: option.splits if_splits)

subsection \<open>Evaluating the sample data\<close>

lemmas tac_defs = runCheck_def checkAndGenerateAlerts_def cycleAlert_def isSignalInvalidated_def
  isSignalWeakening_def isProfitDeteriorating_def calculateDynamicRetestStopLoss_def
  getProtectedProfitPercent_def updateSignalStateOnly_def throttled_def previousPeak_def
  cycleProfitPercent_def getProfitTier_def TELEGRAM_THROTTLE_INTERVAL_def
  checkAt_def healthAt_def monitoredSignal_def Let_def

lemma sample_run:
  "map (\<lambda>a. (alertType a, al_timestamp a)) (snd (runChecks sampleChecks Map.empty))
     = [(WARNING, 60000), (INVALIDATED_ALERT, 180000), (WARNING, 500000)]"
  by (simp add: sampleChecks_def tac_defs)










subsection \<open>Profit protection\<close>




subsection \<open>Peak tracking\<close>

lemma runCheck_peak_grows:
  assumes "peakOf S sid = Some p"
  shows "\<exists>p'. peakOf (fst (runCheck c S)) sid = Some p' \<and> p \<le> p'"
proof (cases "sid = ac_signalId c")
  case False
  with assms show ?thesis by (simp add: runCheck_def peakOf_def check_other)
next
  case True
  show ?thesis
  proof (cases "ac_signal c")
    case None
    with assms show ?thesis by (simp add: runCheck_def checkAndGenerateAlerts_def)
  next
    case (Some signal)
    from assms have "previousPeak (S sid) = p"
      by (auto simp: peakOf_def previousPeak_def split: option.splits)
    with check_peak[of "ac_now c" signal sid "ac_symbol c" "ac_health c" S] True Some
    show ?thesis by (simp add: runCheck_def)
  qed
qed

lemma runChecks_peak_grows:
  "peakOf S sid = Some p \<Longrightarrow> \<exists>p'. peakOf (fst (runChecks cs S)) sid = Some p' \<and> p \<le> p'"
proof (induction cs arbitrary: S p)
  case Nil
  then show ?case by simp
next
  case (Cons c cs)
  from runCheck_peak_grows[OF Cons.prems, of c] obtain p1 where
    p1: "peakOf (fst (runCheck c S)) sid = Some p1" "p \<le> p1" by blast
  from Cons.IH[OF p1(1)] obtain p2 where
    "peakOf (fst (runChecks cs (fst (runCheck c S)))) sid = Some p2" "p1 \<le> p2" by blast
  with p1(2) show ?case by (auto simp: Let_def)
qed

lemma peakStates_peak: "peakOf peakStates 7 = Some 6"
  by (simp add: peakStates_def peakOf_def tac_defs)

text \<open>
  Claim C6. The tracked peak profit of a signal never decreases over any sequence of
  checks, and a check of a signal stores the larger of the previous peak (0 if there is
  none) and the current profit. Entry prices are taken to be non-zero.
\<close>

theorem peak_profit_never_decreases:
  assumes "\<forall>c \<in> set cs. \<forall>s. ac_signal c = Some s \<longrightarrow> entryPrice s \<noteq> 0"
    and "entryPrice signal \<noteq> 0"
  shows "(\<forall>p. peakOf S sid = Some p \<longrightarrow> (\<exists>p'. peakOf (fst (runChecks cs S)) sid = Some p' \<and> p \<le> p'))
    \<and> peakOf (fst (checkAndGenerateAlerts now (Some signal) signalId symb health S)) signalId
        = Some (max (previousPeak (S signalId)) (cycleProfitPercent signal (hs_currentPrice health)))"
proof (intro conjI allI impI)
  fix p assume "peakOf S sid = Some p"
  then show "\<exists>p'. peakOf (fst (runChecks cs S)) sid = Some p' \<and> p \<le> p'"
    by (rule runChecks_peak_grows)
next
  show "peakOf (fst (checkAndGenerateAlerts now (Some signal) signalId symb health S)) signalId
        = Some (max (previousPeak (S signalId)) (cycleProfitPercent signal (hs_currentPrice health)))"
    using check_peak[of now signal signalId symb health S] by (rule conjunct2)
qed

theorem peak_profit_never_decreases_witness:
  "peakOf peakStates 7 = Some 6
   \<and> (\<exists>p'. peakOf (fst (runChecks retraceChecks peakStates)) 7 = Some p' \<and> 6 \<le> p')
   \<and> cycleProfitPercent monitoredSignal 104 = 4
   \<and> peakOf (fst (checkAndGenerateAlerts 60000 (Some monitoredSignal) 7 ''V75''
                    (healthAt 104 STRONG 80) peakStates)) 7 = Some 6"
proof -
  have h1: "\<forall>c \<in> set retraceChecks. \<forall>s. ac_signal c = Some s \<longrightarrow> entryPrice s \<noteq> 0"
    by (simp add: retraceChecks_def checkAt_def monitoredSignal_def)
  have h2: "entryPrice monitoredSignal \<noteq> 0" by (simp add: monitoredSignal_def)
  have pp: "previousPeak (peakStates 7) = 6"
    using peakStates_peak by (auto simp: peakOf_def previousPeak_def split: option.splits)
  have cp: "cycleProfitPercent monitoredSignal 104 = 4"
    by (simp add: cycleProfitPercent_def monitoredSignal_def)
  have hp: "hs_currentPrice (healthAt 104 STRONG 80) = 104" by (simp add: healthAt_def)
  note t = peak_profit_never_decreases[OF h1 h2, where S = peakStates and sid = 7 and now = 60000 and signalId = 7
      and symb = "''V75''" and health = "healthAt 104 STRONG 80"]
  from t peakStates_peak have 1: "\<exists>p'. peakOf (fst (runChecks retraceChecks peakStates)) 7 = Some p' \<and> 6 \<le> p'"
    by blast
  from t have 2: "peakOf (fst (checkAndGenerateAlerts 60000 (Some monitoredSignal) 7 ''V75''
                    (healthAt 104 STRONG 80) peakStates)) 7 = Some 6"
    by (simp add: pp cp hp)
  from peakStates_peak 1 cp 2 show ?thesis by blast
qed

subsection \<open>Throttling\<close>

lemma warnedStates_telegram: "lastTelegramOf warnedStates 7 = Some 60000"
  by (simp add: warnedStates_def lastTelegramOf_def tac_defs)

lemma warned_then_strong_is_silent:
  "snd (checkAndGenerateAlerts 120000 (Some monitoredSignal) 7 ''V75'' (healthAt 103 STRONG 80)
          warnedStates) = None"
  using warnedStates_telegram
  by (auto simp: checkAndGenerateAlerts_def throttled_def lastTelegramOf_def healthAt_def
        TELEGRAM_THROTTLE_INTERVAL_def Let_def split: option.splits)

text \<open>
  Claim C7. Over checks whose times do not decrease, every alert that is not an
  invalidation comes at least the throttle interval of five minutes after every earlier
  alert for the same signal, so no two such alerts are closer together; a check whose
  health status is INVALIDATED emits its alert in that very check whatever the time of the
  last alert; and a check that emits no alert stores the updated alert state.
\<close>

theorem alerts_throttled_except_invalidated:
  "(sorted (map ac_now cs) \<longrightarrow> sorted_wrt spaced (snd (runChecks cs S)))
   \<and> (hs_status health = INVALIDATED \<longrightarrow>
        (\<exists>a. snd (checkAndGenerateAlerts now (Some signal) signalId symb health S) = Some a
           \<and> alertType a = INVALIDATED_ALERT \<and> al_urgency a = URGENCY_HIGH
           \<and> al_timestamp a = now \<and> al_signalId a = signalId))
   \<and> (snd (checkAndGenerateAlerts now (Some signal) signalId symb health S) = None \<longrightarrow>
        fst (checkAndGenerateAlerts now (Some signal) signalId symb health S) =
          updateSignalStateOnly signalId health (cycleProfitPercent signal (hs_currentPrice health))
            (max (previousPeak (S signalId)) (cycleProfitPercent signal (hs_currentPrice health)))
            (hs_currentPrice health)
            (case S signalId of None \<Rightarrow> None | Some ls \<Rightarrow> lastAlertTime ls) S)"
proof (intro conjI impI)
  assume "sorted (map ac_now cs)"
  then show "sorted_wrt spaced (snd (runChecks cs S))"
    by (rule runChecks_spaced[THEN conjunct1])
next
  assume "hs_status health = INVALIDATED"
  then show "\<exists>a. snd (checkAndGenerateAlerts now (Some signal) signalId symb health S) = Some a
           \<and> alertType a = INVALIDATED_ALERT \<and> al_urgency a = URGENCY_HIGH
           \<and> al_timestamp a = now \<and> al_signalId a = signalId"
    by (rule invalidated_alerts_at_once)
next
  assume "snd (checkAndGenerateAlerts now (Some signal) signalId symb health S) = None"
  then show "fst (checkAndGenerateAlerts now (Some signal) signalId symb health S) =
          updateSignalStateOnly signalId health (cycleProfitPercent signal (hs_currentPrice health))
            (max (previousPeak (S signalId)) (cycleProfitPercent signal (hs_currentPrice health)))
            (hs_currentPrice health)
            (case S signalId of None \<Rightarrow> None | Some ls \<Rightarrow> lastAlertTime ls) S"
    by (rule silent_cycle_updates_state)
qed

theorem alerts_throttled_except_invalidated_witness:
  "sorted (map ac_now sampleChecks)
   \<and> sorted_wrt spaced (snd (runChecks sampleChecks Map.empty))
   \<and> map (\<lambda>a. (alertType a, al_timestamp a)) (snd (runChecks sampleChecks Map.empty))
       = [(WARNING, 60000), (INVALIDATED_ALERT, 180000), (WARNING, 500000)]
   \<and> lastTelegramOf warnedStates 7 = Some 60000
   \<and> (\<exists>a. snd (checkAndGenerateAlerts 120000 (Some monitoredSignal) 7 ''V75''
                  (healthAt 103 INVALIDATED 10) warnedStates) = Some a
          \<and> alertType a = INVALIDATED_ALERT \<and> al_timestamp a = 120000)
   \<and> snd (checkAndGenerateAlerts 120000 (Some monitoredSignal) 7 ''V75'' (healthAt 103 STRONG 80)
            warnedStates) = None
   \<and> map_option lastPrice
        (fst (checkAndGenerateAlerts 120000 (Some monitoredSignal) 7 ''V75'' (healthAt 103 STRONG 80)
                warnedStates) 7) = Some (Some 103)"
proof -
  have s: "sorted (map ac_now sampleChecks)"
    by (simp add: sampleChecks_def checkAt_def)
  have i: "hs_status (healthAt 103 INVALIDATED 10) = INVALIDATED" by (simp add: healthAt_def)
  note r = alerts_throttled_except_invalidated[where cs = sampleChecks and S = Map.empty]
  note a = alerts_throttled_except_invalidated[where S = warnedStates and health = "healthAt 103 INVALIDATED 10" and now = 120000
      and signal = monitoredSignal and signalId = 7 and symb = "''V75''"]
  note b = alerts_throttled_except_invalidated[where S = warnedStates and health = "healthAt 103 STRONG 80" and now = 120000
      and signal = monitoredSignal and signalId = 7 and symb = "''V75''"]
  from r s have 1: "sorted_wrt spaced (snd (runChecks sampleChecks Map.empty))" by blast
  from a i have 2: "\<exists>a. snd (checkAndGenerateAlerts 120000 (Some monitoredSignal) 7 ''V75''
                  (healthAt 103 INVALIDATED 10) warnedStates) = Some a
          \<and> alertType a = INVALIDATED_ALERT \<and> al_timestamp a = 120000" by blast
  from b warned_then_strong_is_silent
  have "fst (checkAndGenerateAlerts 120000 (Some monitoredSignal) 7 ''V75'' (healthAt 103 STRONG 80)
                warnedStates) =
          updateSignalStateOnly 7 (healthAt 103 STRONG 80)
            (cycleProfitPercent monitoredSignal (hs_currentPrice (healthAt 103 STRONG 80)))
            (max (previousPeak (warnedStates 7))
               (cycleProfitPercent monitoredSignal (hs_currentPrice (healthAt 103 STRONG 80))))
            (hs_currentPrice (healthAt 103 STRONG 80))
            (case warnedStates 7 of None \<Rightarrow> None | Some ls \<Rightarrow> lastAlertTime ls) warnedStates"
    by blast
  then have 3: "map_option lastPrice
        (fst (checkAndGenerateAlerts 120000 (Some monitoredSignal) 7 ''V75'' (healthAt 103 STRONG 80)
                warnedStates) 7) = Some (Some 103)"
    by (simp add: updateSignalStateOnly_def healthAt_def Let_def)
  from s 1 sample_run warnedStates_telegram 2 warned_then_strong_is_silent 3
  show ?thesis by blast
qed

end
